theory Spec2Isabelle
  imports Complex_Main "HOL-Library.AList" "HOL-Library.Monad_Syntax"
begin

section \<open>JavaScript values\<close>

text \<open>
  Strings are sequences of UTF-16 code units. The model represents one code unit by one
  \<^typ>\<open>char\<close>, so it covers the code units U+0000 to U+00FF (Basic Latin and Latin-1,
  which is where the validation patterns of the backend live). Numbers are the finite
  JavaScript numbers, read as reals. Timestamps that the backend produces with
  \<^verbatim>\<open>new Date().toISOString()\<close> and reads back with \<^verbatim>\<open>new Date(s)\<close> are
  represented by their time value in milliseconds since the epoch: ECMAScript guarantees
  \<^verbatim>\<open>Date.parse(x.toISOString()) = x.valueOf()\<close> for every valid date.
\<close>

definition code :: "char \<Rightarrow> nat" where
  "code c = of_char c"

definition isDigit :: "char \<Rightarrow> bool" where
  "isDigit c = (48 \<le> code c \<and> code c \<le> 57)"

text \<open>The class \<^verbatim>\<open>\s\<close> of a JavaScript regular expression, within U+0000..U+00FF.\<close>

definition isSpace :: "char \<Rightarrow> bool" where
  "isSpace c = (code c \<in> {9, 10, 11, 12, 13, 32, 160})"

definition isHex :: "char \<Rightarrow> bool" where
  "isHex c = (isDigit c \<or> (65 \<le> code c \<and> code c \<le> 70) \<or> (97 \<le> code c \<and> code c \<le> 102))"

definition lowerChar :: "char \<Rightarrow> char" where
  "lowerChar c =
     (if (65 \<le> code c \<and> code c \<le> 90) \<or> (192 \<le> code c \<and> code c \<le> 222 \<and> code c \<noteq> 215)
      then char_of (code c + 32) else c)"

text \<open>\<^verbatim>\<open>String.prototype.toLowerCase\<close>.\<close>

definition toLowerCase :: "string \<Rightarrow> string" where
  "toLowerCase s = map lowerChar s"

text \<open>
  \<^verbatim>\<open>String.prototype.toUpperCase\<close>: the sharp s (U+00DF) becomes two code units. The
  upper-case forms of U+00B5 and U+00FF lie above U+00FF; the model leaves these two
  code units as they are.
\<close>

definition upperChar :: "char \<Rightarrow> string" where
  "upperChar c =
     (if (97 \<le> code c \<and> code c \<le> 122) \<or> (224 \<le> code c \<and> code c \<le> 254 \<and> code c \<noteq> 247)
      then [char_of (code c - 32)]
      else if code c = 223 then ''SS'' else [c])"

definition toUpperCase :: "string \<Rightarrow> string" where
  "toUpperCase s = concat (map upperChar s)"

text \<open>A value of type \<^verbatim>\<open>unknown\<close>: what a request body or a parameter object can hold.\<close>

datatype json =
    JUndefined
  | JNull
  | JBool bool
  | JNum real
  | JStr string
  | JArr "json list"
  | JObj "(string \<times> json) list"

text \<open>Reading a property of an object: a missing key reads as \<^verbatim>\<open>undefined\<close>.\<close>

definition getProp :: "(string \<times> json) list \<Rightarrow> string \<Rightarrow> json" where
  "getProp obj k = (case map_of obj k of None \<Rightarrow> JUndefined | Some v \<Rightarrow> v)"

section \<open>Dates\<close>

text \<open>
  A \<^verbatim>\<open>Date\<close> is its time value (milliseconds since 1970-01-01T00:00:00Z);
  \<open>None\<close> is the invalid date, whose time value is \<^verbatim>\<open>NaN\<close>.
\<close>

definition msPerDay :: int where
  "msPerDay = 86400000"

definition digitVal :: "char \<Rightarrow> nat" where
  "digitVal c = code c - 48"

definition readNat :: "string \<Rightarrow> nat" where
  "readNat s = foldl (\<lambda>a c. 10 * a + digitVal c) 0 s"

definition inLeapYear :: "int \<Rightarrow> bool" where
  "inLeapYear y = (y mod 4 = 0 \<and> (y mod 100 \<noteq> 0 \<or> y mod 400 = 0))"

definition dayFromYear :: "int \<Rightarrow> int" where
  "dayFromYear y =
     365 * (y - 1970) + (y - 1969) div 4 - (y - 1901) div 100 + (y - 1601) div 400"

text \<open>Days before the first of month \<open>m\<close> (1 to 12) within a year.\<close>

definition daysBeforeMonth :: "bool \<Rightarrow> nat \<Rightarrow> int" where
  "daysBeforeMonth leap m =
     [0, 31, 59, 90, 120, 151, 181, 212, 243, 273, 304, 334] ! (m - 1)
       + (if leap \<and> 2 < m then 1 else 0)"

text \<open>
  \<^verbatim>\<open>new Date(s)\<close> for a date-only string \<^verbatim>\<open>YYYY-MM-DD\<close> (the only form the
  history filters let through): midnight UTC of that day. As in V8, the month must be
  01 to 12 and the day 01 to 31, and a day past the end of the month rolls over.
\<close>

definition isDateOnly :: "string \<Rightarrow> bool" where
  "isDateOnly s =
     (length s = 10 \<and> list_all isDigit (take 4 s) \<and> s ! 4 = CHR ''-''
        \<and> list_all isDigit (take 2 (drop 5 s)) \<and> s ! 7 = CHR ''-''
        \<and> list_all isDigit (drop 8 s))"

definition newDate :: "string \<Rightarrow> int option" where
  "newDate s =
     (if isDateOnly s then
        (let y = readNat (take 4 s); m = readNat (take 2 (drop 5 s)); d = readNat (drop 8 s)
         in if 1 \<le> m \<and> m \<le> 12 \<and> 1 \<le> d \<and> d \<le> 31
            then Some (msPerDay *
                   (dayFromYear (int y) + daysBeforeMonth (inLeapYear (int y)) m + int d - 1))
            else None)
      else None)"

text \<open>
  The local time zone of the server is what the host's time zone rules make it, and its
  offset (local time minus UTC, in milliseconds) changes where daylight saving time
  begins or ends. The language has two conversions: \<open>utcOffset tz t\<close> is the offset in
  force at the instant \<open>t\<close> (\<^verbatim>\<open>LocalTZA(t, true)\<close>), and \<open>localOffset tz x\<close> is the offset
  by which the local clock reading \<open>x\<close> is turned into an instant
  (\<^verbatim>\<open>LocalTZA(x, false)\<close>).
\<close>

record timezone =
  utcOffset :: "int \<Rightarrow> int"
  localOffset :: "int \<Rightarrow> int"

text \<open>
  \<^verbatim>\<open>date.setHours(23, 59, 59, 999)\<close> works in the local time of the server: the time
  value is taken to local time with the offset in force at it, the time within the local
  day is replaced, and the local clock reading that results is taken back with the offset
  that belongs to that reading.
\<close>

definition setHoursEndOfDay :: "timezone \<Rightarrow> int option \<Rightarrow> int option" where
  "setHoursEndOfDay tz d =
     (case d of
        None \<Rightarrow> None
      | Some t \<Rightarrow>
          (let local = t + utcOffset tz t;
               day = local div msPerDay;
               reading = day * msPerDay + (((23 * 60 + 59) * 60 + 59) * 1000 + 999)
           in Some (reading - localOffset tz reading)))"

text \<open>The comparisons \<^verbatim>\<open>a >= b\<close> and \<^verbatim>\<open>a <= b\<close> of two dates: false when one is invalid.\<close>

definition dateGe :: "int option \<Rightarrow> int option \<Rightarrow> bool" where
  "dateGe a b = (case (a, b) of (Some x, Some y) \<Rightarrow> y \<le> x | _ \<Rightarrow> False)"

definition dateLe :: "int option \<Rightarrow> int option \<Rightarrow> bool" where
  "dateLe a b = (case (a, b) of (Some x, Some y) \<Rightarrow> x \<le> y | _ \<Rightarrow> False)"

text \<open>\<^verbatim>\<open>String(n)\<close> for a natural number, and \<^verbatim>\<open>padStart(w, '0')\<close>.\<close>

fun digitsOf :: "nat \<Rightarrow> string" where
  "digitsOf n = (if n < 10 then [char_of (48 + n)] else digitsOf (n div 10) @ [char_of (48 + n mod 10)])"

declare digitsOf.simps [simp del]

definition padStart :: "nat \<Rightarrow> char \<Rightarrow> string \<Rightarrow> string" where
  "padStart w c s = replicate (w - length s) c @ s"

text \<open>
  The calendar date of a day number (days since the epoch), as year, month and day of
  the proleptic Gregorian calendar.
\<close>

definition civilFromDays :: "int \<Rightarrow> int \<times> int \<times> int" where
  "civilFromDays z =
     (let z' = z + 719468;
          era = z' div 146097;
          doe = z' mod 146097;
          yoe = (doe - doe div 1460 + doe div 36524 - doe div 146096) div 365;
          doy = doe - (365 * yoe + yoe div 4 - yoe div 100);
          mp = (5 * doy + 2) div 153;
          d = doy - (153 * mp + 2) div 5 + 1;
          m = (if mp < 10 then mp + 3 else mp - 9);
          y = yoe + era * 400 + (if m \<le> 2 then 1 else 0)
      in (y, m, d))"

text \<open>
  \<^verbatim>\<open>Date.prototype.toISOString\<close>: \<^verbatim>\<open>YYYY-MM-DDTHH:mm:ss.sssZ\<close>, with a sign and
  six digits for a year outside 0 to 9999.
\<close>

definition toISOString :: "int \<Rightarrow> string" where
  "toISOString t =
     (let (y, m, d) = civilFromDays (t div msPerDay);
          r = nat (t mod msPerDay);
          year = (if 0 \<le> y \<and> y \<le> 9999 then padStart 4 (CHR ''0'') (digitsOf (nat y))
                  else (if y < 0 then ''-'' else ''+'') @ padStart 6 (CHR ''0'') (digitsOf (nat \<bar>y\<bar>)))
      in year @ ''-'' @ padStart 2 (CHR ''0'') (digitsOf (nat m))
           @ ''-'' @ padStart 2 (CHR ''0'') (digitsOf (nat d))
           @ ''T'' @ padStart 2 (CHR ''0'') (digitsOf (r div 3600000))
           @ '':'' @ padStart 2 (CHR ''0'') (digitsOf (r div 60000 mod 60))
           @ '':'' @ padStart 2 (CHR ''0'') (digitsOf (r div 1000 mod 60))
           @ ''.'' @ padStart 3 (CHR ''0'') (digitsOf (r mod 1000)) @ ''Z'')"

section \<open>Constants\<close>

text \<open>\<^verbatim>\<open>constants/property/propertyDefaults.ts\<close>.\<close>

definition DEFAULT_STATUS :: string where
  "DEFAULT_STATUS = ''Dispon'' @ [CHR 0xED] @ ''vel''"

definition MAX_RECORDS :: nat where
  "MAX_RECORDS = 10000"

definition PROPERTY_STATUS :: "string list" where
  "PROPERTY_STATUS =
     [''Dispon'' @ [CHR 0xED] @ ''vel'', ''Ocupada'',
      ''Manuten'' @ [CHR 0xE7, CHR 0xE3] @ ''o'', ''Inativa'']"

definition RESIDENTIAL_TYPES :: "string list" where
  "RESIDENTIAL_TYPES = [''Casa'', ''Apartamento'', ''Kitnet'']"

definition COMMERCIAL_TYPES :: "string list" where
  "COMMERCIAL_TYPES = [''Loja'', ''Sala Comercial'', ''Galp'' @ [CHR 0xE3] @ ''o'']"

definition PROPERTY_TYPES :: "string list" where
  "PROPERTY_TYPES = RESIDENTIAL_TYPES @ COMMERCIAL_TYPES"

definition VALID_ESTADOS :: "string list" where
  "VALID_ESTADOS =
     [''AC'', ''AL'', ''AP'', ''AM'', ''BA'', ''CE'', ''DF'', ''ES'', ''GO'', ''MA'', ''MT'',
      ''MS'', ''MG'', ''PA'', ''PB'', ''PR'', ''PE'', ''PI'', ''RJ'', ''RN'', ''RS'', ''RO'',
      ''RR'', ''SC'', ''SP'', ''SE'', ''TO'']"

definition ENDERECO_MAX_LENGTH :: nat where "ENDERECO_MAX_LENGTH = 200"
definition CEP_LENGTH :: nat where "CEP_LENGTH = 9"
definition BAIRRO_MAX_LENGTH :: nat where "BAIRRO_MAX_LENGTH = 100"
definition CIDADE_MAX_LENGTH :: nat where "CIDADE_MAX_LENGTH = 100"
definition AREA_MIN :: real where "AREA_MIN = 0.01"
definition AREA_MAX :: real where "AREA_MAX = 10000"
definition QUARTOS_MAX :: real where "QUARTOS_MAX = 20"
definition BANHEIROS_MAX :: real where "BANHEIROS_MAX = 10"
definition VAGAS_MAX :: real where "VAGAS_MAX = 20"
definition DESCRICAO_MAX_LENGTH :: nat where "DESCRICAO_MAX_LENGTH = 1000"

text \<open>\<^verbatim>\<open>PROPERTY_CHANGE_TYPES\<close> of \<^verbatim>\<open>propertyHistoryDefaults.ts\<close>.\<close>

definition CHANGE_TYPE_TODOS :: string where
  "CHANGE_TYPE_TODOS = ''todos''"

definition PROPERTY_CHANGE_TYPES :: "string list" where
  "PROPERTY_CHANGE_TYPES =
     [''mudancas_valor_aluguel'', ''alteracoes_status_propriedade'',
      ''modificacoes_descricao_propriedade'', ''atualizacoes_caracteristicas'',
      ''mudancas_dados_contato_proprietario'', CHANGE_TYPE_TODOS]"

section \<open>Schema validation\<close>

text \<open>
  A schema maps a raw value to the parsed value, or to \<open>None\<close> when
  \<^verbatim>\<open>safeParse\<close> reports failure (the list of issues is not modelled). An object schema
  keeps the declared keys only.
\<close>

definition check :: "bool \<Rightarrow> unit option" where
  "check b = (if b then Some () else None)"

definition zString :: "json \<Rightarrow> string option" where
  "zString v = (case v of JStr s \<Rightarrow> Some s | _ \<Rightarrow> None)"

definition zNumber :: "json \<Rightarrow> real option" where
  "zNumber v = (case v of JNum x \<Rightarrow> Some x | _ \<Rightarrow> None)"

definition zEnum :: "string list \<Rightarrow> json \<Rightarrow> string option" where
  "zEnum vs v = (case v of JStr s \<Rightarrow> if s \<in> set vs then Some s else None | _ \<Rightarrow> None)"

definition zNullable :: "(json \<Rightarrow> 'a option) \<Rightarrow> json \<Rightarrow> 'a option option" where
  "zNullable inner v = (case v of JNull \<Rightarrow> Some None | _ \<Rightarrow> map_option Some (inner v))"

definition zOptional :: "(json \<Rightarrow> 'a option) \<Rightarrow> json \<Rightarrow> 'a option option" where
  "zOptional inner v = (case v of JUndefined \<Rightarrow> Some None | _ \<Rightarrow> map_option Some (inner v))"

definition zRefine :: "(json \<Rightarrow> 'a option) \<Rightarrow> ('a \<Rightarrow> bool) \<Rightarrow> json \<Rightarrow> 'a option" where
  "zRefine inner P v = do { x \<leftarrow> inner v; check (P x); Some x }"

definition isInteger :: "real \<Rightarrow> bool" where
  "isInteger x = (real_of_int \<lfloor>x\<rfloor> = x)"

text \<open>\<^verbatim>\<open>/^\d{5}-\d{3}$/\<close>\<close>

definition cepRegex :: "string \<Rightarrow> bool" where
  "cepRegex s =
     (length s = 9 \<and> list_all isDigit (take 5 s) \<and> s ! 5 = CHR ''-'' \<and> list_all isDigit (drop 6 s))"

definition cepSchema :: "json \<Rightarrow> string option" where
  "cepSchema = zRefine zString (\<lambda>s. length s = CEP_LENGTH \<and> cepRegex s)"

definition estadoSchema :: "json \<Rightarrow> string option" where
  "estadoSchema = zEnum VALID_ESTADOS"

definition tipoPropriedadeSchema :: "json \<Rightarrow> string option" where
  "tipoPropriedadeSchema = zEnum PROPERTY_TYPES"

definition statusSchema :: "json \<Rightarrow> string option" where
  "statusSchema = zEnum PROPERTY_STATUS"

text \<open>The character class \<^verbatim>\<open>[A-Za-z\<close>U+00C0\<^verbatim>\<open>-\<close>U+00FF\<^verbatim>\<open>\s]\<close> of the address pattern.\<close>

definition isAddrChar :: "char \<Rightarrow> bool" where
  "isAddrChar c =
     ((65 \<le> code c \<and> code c \<le> 90) \<or> (97 \<le> code c \<and> code c \<le> 122)
        \<or> (192 \<le> code c \<and> code c \<le> 255) \<or> isSpace c)"

text \<open>
  The address pattern: from the start, a run of class characters that has a white-space
  character strictly inside it, then a comma, optional white space and a digit. The
  comma is outside the class, so the run is the longest prefix of class characters.
\<close>

definition enderecoRegex :: "string \<Rightarrow> bool" where
  "enderecoRegex s =
     (list_ex isSpace (butlast (tl (takeWhile isAddrChar s)))
        \<and> (case dropWhile isAddrChar s of
              [] \<Rightarrow> False
            | c # r \<Rightarrow> c = CHR '','' \<and>
                (case dropWhile isSpace r of [] \<Rightarrow> False | d # _ \<Rightarrow> isDigit d)))"

definition enderecoSchema :: "json \<Rightarrow> string option" where
  "enderecoSchema =
     zRefine zString (\<lambda>s. 1 \<le> length s \<and> length s \<le> ENDERECO_MAX_LENGTH \<and> enderecoRegex s)"

definition bairroSchema :: "json \<Rightarrow> string option" where
  "bairroSchema = zRefine zString (\<lambda>s. 1 \<le> length s \<and> length s \<le> BAIRRO_MAX_LENGTH)"

definition cidadeSchema :: "json \<Rightarrow> string option" where
  "cidadeSchema = zRefine zString (\<lambda>s. 1 \<le> length s \<and> length s \<le> CIDADE_MAX_LENGTH)"

definition areaSchema :: "json \<Rightarrow> real option" where
  "areaSchema = zRefine zNumber (\<lambda>x. AREA_MIN \<le> x \<and> x \<le> AREA_MAX)"

definition quartosSchema :: "json \<Rightarrow> real option option" where
  "quartosSchema = zNullable (zRefine zNumber (\<lambda>x. isInteger x \<and> 0 \<le> x \<and> x \<le> QUARTOS_MAX))"

definition banheirosSchema :: "json \<Rightarrow> real option option" where
  "banheirosSchema = zNullable (zRefine zNumber (\<lambda>x. isInteger x \<and> 0 \<le> x \<and> x \<le> BANHEIROS_MAX))"

definition vagasSchema :: "json \<Rightarrow> real option" where
  "vagasSchema = zRefine zNumber (\<lambda>x. isInteger x \<and> 0 \<le> x \<and> x \<le> VAGAS_MAX)"

definition valorAluguelSchema :: "json \<Rightarrow> real option" where
  "valorAluguelSchema = zRefine zNumber (\<lambda>x. 0 < x)"

definition valorOpcionalSchema :: "json \<Rightarrow> real option option" where
  "valorOpcionalSchema = zNullable (zRefine zNumber (\<lambda>x. 0 \<le> x))"

definition descricaoSchema :: "json \<Rightarrow> string option option" where
  "descricaoSchema = zNullable (zRefine zString (\<lambda>s. length s \<le> DESCRICAO_MAX_LENGTH))"

text \<open>The parsed body of a create request (\<^verbatim>\<open>CreateInput\<close>).\<close>

record CreateInput =
  c_tipo_propriedade :: string
  c_endereco_completo :: string
  c_cep :: string
  c_bairro :: string
  c_cidade :: string
  c_estado :: string
  c_area_total :: real
  c_quartos :: "real option"
  c_banheiros :: "real option"
  c_vagas_garagem :: real
  c_valor_aluguel :: real
  c_valor_condominio :: "real option"
  c_valor_iptu :: "real option"
  c_descricao :: "string option"
  c_usuario_cadastro :: string

definition createSchema :: "json \<Rightarrow> CreateInput option" where
  "createSchema body =
     (case body of
        JObj obj \<Rightarrow> do {
          tipo \<leftarrow> tipoPropriedadeSchema (getProp obj ''tipo_propriedade'');
          endereco \<leftarrow> enderecoSchema (getProp obj ''endereco_completo'');
          cep \<leftarrow> cepSchema (getProp obj ''cep'');
          bairro \<leftarrow> bairroSchema (getProp obj ''bairro'');
          cidade \<leftarrow> cidadeSchema (getProp obj ''cidade'');
          estado \<leftarrow> estadoSchema (getProp obj ''estado'');
          area \<leftarrow> areaSchema (getProp obj ''area_total'');
          quartos \<leftarrow> quartosSchema (getProp obj ''quartos'');
          banheiros \<leftarrow> banheirosSchema (getProp obj ''banheiros'');
          vagas \<leftarrow> vagasSchema (getProp obj ''vagas_garagem'');
          aluguel \<leftarrow> valorAluguelSchema (getProp obj ''valor_aluguel'');
          condominio \<leftarrow> valorOpcionalSchema (getProp obj ''valor_condominio'');
          iptu \<leftarrow> valorOpcionalSchema (getProp obj ''valor_iptu'');
          descricao \<leftarrow> descricaoSchema (getProp obj ''descricao'');
          usuario \<leftarrow> zRefine zString (\<lambda>s. 1 \<le> length s) (getProp obj ''usuario_cadastro'');
          check (\<not> (tipo \<in> set COMMERCIAL_TYPES \<and> quartos \<noteq> None));
          Some \<lparr>c_tipo_propriedade = tipo, c_endereco_completo = endereco, c_cep = cep,
                 c_bairro = bairro, c_cidade = cidade, c_estado = estado, c_area_total = area,
                 c_quartos = quartos, c_banheiros = banheiros, c_vagas_garagem = vagas,
                 c_valor_aluguel = aluguel, c_valor_condominio = condominio,
                 c_valor_iptu = iptu, c_descricao = descricao, c_usuario_cadastro = usuario\<rparr>
        }
      | _ \<Rightarrow> None)"

text \<open>The parsed body of an update request (\<^verbatim>\<open>UpdateInput\<close>).\<close>

record UpdateInput =
  u_tipo_propriedade :: string
  u_endereco_completo :: string
  u_cep :: string
  u_bairro :: string
  u_cidade :: string
  u_estado :: string
  u_area_total :: real
  u_quartos :: "real option"
  u_banheiros :: "real option"
  u_vagas_garagem :: real
  u_valor_aluguel :: real
  u_valor_condominio :: "real option"
  u_valor_iptu :: "real option"
  u_descricao :: "string option"
  u_status :: string

definition updateSchema :: "json \<Rightarrow> UpdateInput option" where
  "updateSchema body =
     (case body of
        JObj obj \<Rightarrow> do {
          tipo \<leftarrow> tipoPropriedadeSchema (getProp obj ''tipo_propriedade'');
          endereco \<leftarrow> enderecoSchema (getProp obj ''endereco_completo'');
          cep \<leftarrow> cepSchema (getProp obj ''cep'');
          bairro \<leftarrow> bairroSchema (getProp obj ''bairro'');
          cidade \<leftarrow> cidadeSchema (getProp obj ''cidade'');
          estado \<leftarrow> estadoSchema (getProp obj ''estado'');
          area \<leftarrow> areaSchema (getProp obj ''area_total'');
          quartos \<leftarrow> quartosSchema (getProp obj ''quartos'');
          banheiros \<leftarrow> banheirosSchema (getProp obj ''banheiros'');
          vagas \<leftarrow> vagasSchema (getProp obj ''vagas_garagem'');
          aluguel \<leftarrow> valorAluguelSchema (getProp obj ''valor_aluguel'');
          condominio \<leftarrow> valorOpcionalSchema (getProp obj ''valor_condominio'');
          iptu \<leftarrow> valorOpcionalSchema (getProp obj ''valor_iptu'');
          descricao \<leftarrow> descricaoSchema (getProp obj ''descricao'');
          status \<leftarrow> statusSchema (getProp obj ''status'');
          check (\<not> (tipo \<in> set COMMERCIAL_TYPES \<and> quartos \<noteq> None));
          Some \<lparr>u_tipo_propriedade = tipo, u_endereco_completo = endereco, u_cep = cep,
                 u_bairro = bairro, u_cidade = cidade, u_estado = estado, u_area_total = area,
                 u_quartos = quartos, u_banheiros = banheiros, u_vagas_garagem = vagas,
                 u_valor_aluguel = aluguel, u_valor_condominio = condominio,
                 u_valor_iptu = iptu, u_descricao = descricao, u_status = status\<rparr>
        }
      | _ \<Rightarrow> None)"

section \<open>Entities and stores\<close>

record PropertyEntity =
  property_id :: string
  codigo_propriedade :: string
  tipo_propriedade :: string
  endereco_completo :: string
  cep :: string
  bairro :: string
  cidade :: string
  estado :: string
  area_total :: real
  quartos :: "real option"
  banheiros :: "real option"
  vagas_garagem :: real
  valor_aluguel :: real
  valor_condominio :: "real option"
  valor_iptu :: "real option"
  descricao :: "string option"
  status :: string
  data_cadastro :: int
  usuario_cadastro :: string

record SequencialRecord =
  data_referencia :: string
  ultimo_sequencial :: nat
  created_at :: int
  updated_at :: int

record PropertyHistoryChangeRecord =
  change_id :: string
  ch_property_id :: string
  change_date :: int
  user_responsible :: string
  field_modified :: string
  previous_value :: "string option"
  new_value :: string
  change_reason :: string
  property_status :: string
  change_type :: string

record PropertyLifecycleEventRecord =
  event_id :: string
  ev_property_id :: string
  event_type :: string
  event_date :: int
  event_description :: string
  related_contract_id :: "string option"
  related_tenant_id :: "string option"
  event_impact :: string

text \<open>The parsed parameters of a history query (\<^verbatim>\<open>HistoryQueryInput\<close>).\<close>

record HistoryQueryInput =
  q_property_id :: string
  start_date :: "string option"
  end_date :: "string option"
  q_change_type :: "string option"
  responsible_user :: "string option"

record PropertyHistoryAuditRecord =
  audit_id :: string
  user_id :: string
  consulted_property_id :: string
  consultation_timestamp :: int
  applied_filters :: HistoryQueryInput
  records_returned :: nat
  exported :: bool
  export_format :: "string option"

text \<open>
  Every store is a JavaScript \<^verbatim>\<open>Map\<close> keyed by a string: an association list in
  insertion order, where \<^verbatim>\<open>set\<close> replaces the value of a present key in place and
  appends an absent one (\<^const>\<open>AList.update\<close>). The state is the content of the five
  singleton stores, and the calls of \<^verbatim>\<open>propertyCreate\<close> that are suspended at their
  \<^verbatim>\<open>await\<close>: each of them holds the entity that it stores when it goes on.
\<close>

record state =
  properties :: "(string \<times> PropertyEntity) list"
  seq_records :: "(string \<times> SequencialRecord) list"
  seq_locks :: "(string \<times> bool) list"
  hist_changes :: "(string \<times> PropertyHistoryChangeRecord) list"
  hist_events :: "(string \<times> PropertyLifecycleEventRecord) list"
  audits :: "(string \<times> PropertyHistoryAuditRecord) list"
  pending :: "PropertyEntity list"

definition initial :: state where
  "initial = \<lparr>properties = [], seq_records = [], seq_locks = [], hist_changes = [],
              hist_events = [], audits = [], pending = []\<rparr>"

datatype error_code = VALIDATION_ERROR | NOT_FOUND | DUPLICATE_ADDRESS | MAX_RECORDS_REACHED

text \<open>
  A \<^verbatim>\<open>ServiceError\<close> with its code and HTTP status (message and details are not
  modelled), or the plain \<^verbatim>\<open>Error\<close> of the lock timeout.
\<close>

datatype error = ServiceError error_code nat | LockTimeout

subsection \<open>\<^verbatim>\<open>PropertyStore\<close>\<close>

definition getAll :: "state \<Rightarrow> PropertyEntity list" where
  "getAll s = map snd (properties s)"

definition getById :: "state \<Rightarrow> string \<Rightarrow> PropertyEntity option" where
  "getById s pid = map_of (properties s) pid"

definition existsByAddress :: "state \<Rightarrow> string \<Rightarrow> string \<Rightarrow> string \<Rightarrow> string \<Rightarrow> string \<Rightarrow> bool" where
  "existsByAddress s endereco bairro' cep' cidade' estado' =
     list_ex (\<lambda>p. toLowerCase (endereco_completo p) = toLowerCase endereco
                 \<and> toLowerCase (bairro p) = toLowerCase bairro'
                 \<and> cep p = cep'
                 \<and> toLowerCase (cidade p) = toLowerCase cidade'
                 \<and> toUpperCase (estado p) = toUpperCase estado')
       (map snd (properties s))"

definition add :: "PropertyEntity \<Rightarrow> state \<Rightarrow> state" where
  "add r s = s\<lparr>properties := AList.update (property_id r) r (properties s)\<rparr>"

definition update :: "string \<Rightarrow> PropertyEntity \<Rightarrow> state \<Rightarrow> state" where
  "update pid data s = s\<lparr>properties := AList.update pid data (properties s)\<rparr>"

definition count :: "state \<Rightarrow> nat" where
  "count s = length (properties s)"

subsection \<open>\<^verbatim>\<open>CodigoSequencialStore\<close>\<close>

text \<open>
  \<^verbatim>\<open>acquireLock\<close> takes the lock of the date unless it is held. The call is synchronous,
  so a held lock stays held through the fifty attempts and the call throws.
\<close>

definition acquireLock :: "string \<Rightarrow> state \<Rightarrow> error + state" where
  "acquireLock dateRef s =
     (if map_of (seq_locks s) dateRef = Some True then Inl LockTimeout
      else Inr (s\<lparr>seq_locks := AList.update dateRef True (seq_locks s)\<rparr>))"

definition releaseLock :: "string \<Rightarrow> state \<Rightarrow> state" where
  "releaseLock dateRef s = s\<lparr>seq_locks := AList.delete dateRef (seq_locks s)\<rparr>"

definition getNextSequential :: "string \<Rightarrow> int \<Rightarrow> state \<Rightarrow> (error + nat) \<times> state" where
  "getNextSequential dateRef now s =
     (case acquireLock dateRef s of
        Inl e \<Rightarrow> (Inl e, s)
      | Inr s1 \<Rightarrow>
          (case map_of (seq_records s1) dateRef of
             Some existing \<Rightarrow>
               (let existing' = existing\<lparr>ultimo_sequencial := ultimo_sequencial existing + 1,
                                          updated_at := now\<rparr>;
                    s2 = s1\<lparr>seq_records := AList.update dateRef existing' (seq_records s1)\<rparr>
                in (Inr (ultimo_sequencial existing'), releaseLock dateRef s2))
           | None \<Rightarrow>
               (let newRecord = \<lparr>data_referencia = dateRef, ultimo_sequencial = 1,
                                  created_at = now, updated_at = now\<rparr>;
                    s2 = s1\<lparr>seq_records := AList.update dateRef newRecord (seq_records s1)\<rparr>
                in (Inr 1, releaseLock dateRef s2))))"

definition getCurrentSequential :: "state \<Rightarrow> string \<Rightarrow> nat" where
  "getCurrentSequential s dateRef =
     (case map_of (seq_records s) dateRef of Some r \<Rightarrow> ultimo_sequencial r | None \<Rightarrow> 0)"

section \<open>Property service\<close>

text \<open>
  The values a call takes from its environment are parameters: the clock readings
  (\<^verbatim>\<open>new Date()\<close>) in the order the code takes them, and the result of
  \<^verbatim>\<open>uuidv4()\<close>. A service function returns its result, or the error it throws,
  together with the state it leaves.
\<close>

definition dateStr :: "int \<Rightarrow> string" where
  "dateStr today = filter (\<lambda>c. c \<noteq> CHR ''-'') (takeWhile (\<lambda>c. c \<noteq> CHR ''T'') (toISOString today))"

definition generatePropertyCode :: "int \<Rightarrow> int \<Rightarrow> state \<Rightarrow> (error + string) \<times> state" where
  "generatePropertyCode today seqNow s =
     (case getNextSequential (dateStr today) seqNow s of
        (Inl e, s') \<Rightarrow> (Inl e, s')
      | (Inr sequential, s') \<Rightarrow>
          (Inr (''PROP-'' @ dateStr today @ ''-'' @ padStart 3 (CHR ''0'') (digitsOf sequential)), s'))"

definition checkDuplicateAddress :: "state \<Rightarrow> string \<Rightarrow> string \<Rightarrow> string \<Rightarrow> string \<Rightarrow> string \<Rightarrow> bool" where
  "checkDuplicateAddress s endereco bairro' cep' cidade' estado' =
     existsByAddress s endereco bairro' cep' cidade' estado'"

text \<open>The object literal \<^verbatim>\<open>newProperty\<close> of \<^verbatim>\<open>propertyCreate\<close>.\<close>

definition newProperty :: "string \<Rightarrow> string \<Rightarrow> CreateInput \<Rightarrow> int \<Rightarrow> PropertyEntity" where
  "newProperty uuid codigo params now =
     \<lparr>property_id = uuid,
      codigo_propriedade = codigo,
      tipo_propriedade = c_tipo_propriedade params,
      endereco_completo = c_endereco_completo params,
      cep = c_cep params,
      bairro = c_bairro params,
      cidade = c_cidade params,
      estado = c_estado params,
      area_total = c_area_total params,
      quartos = c_quartos params,
      banheiros = c_banheiros params,
      vagas_garagem = c_vagas_garagem params,
      valor_aluguel = c_valor_aluguel params,
      valor_condominio = c_valor_condominio params,
      valor_iptu = c_valor_iptu params,
      descricao = c_descricao params,
      status = DEFAULT_STATUS,
      data_cadastro = now,
      usuario_cadastro = c_usuario_cadastro params\<rparr>"

text \<open>
  \<^verbatim>\<open>propertyCreate\<close>: \<open>now\<close> is the clock reading stored as \<^verbatim>\<open>data_cadastro\<close>,
  \<open>uuid\<close> the generated identifier, \<open>today\<close> the clock reading of
  \<^verbatim>\<open>generatePropertyCode\<close> and \<open>seqNow\<close> the one of \<^verbatim>\<open>getNextSequential\<close>.
\<close>

definition propertyCreate ::
  "int \<Rightarrow> string \<Rightarrow> int \<Rightarrow> int \<Rightarrow> json \<Rightarrow> state \<Rightarrow> (error + PropertyEntity) \<times> state" where
  "propertyCreate now uuid today seqNow body s =
     (case createSchema body of
        None \<Rightarrow> (Inl (ServiceError VALIDATION_ERROR 400), s)
      | Some params \<Rightarrow>
          if checkDuplicateAddress s (c_endereco_completo params) (c_bairro params)
               (c_cep params) (c_cidade params) (c_estado params)
          then (Inl (ServiceError DUPLICATE_ADDRESS 409), s)
          else if MAX_RECORDS \<le> count s
          then (Inl (ServiceError MAX_RECORDS_REACHED 507), s)
          else
            (case generatePropertyCode today seqNow s of
               (Inl e, s') \<Rightarrow> (Inl e, s')
             | (Inr codigo, s') \<Rightarrow>
                 (Inr (newProperty uuid codigo params now),
                  add (newProperty uuid codigo params now) s')))"

text \<open>
  The function above is a call of \<^verbatim>\<open>propertyCreate\<close> that nothing interrupts. The call
  is suspended at \<^verbatim>\<open>await generatePropertyCode()\<close>, and other calls can run until it
  goes on. What comes before the \<^verbatim>\<open>await\<close> is \<open>propertyCreateStart\<close>: the checks, the
  clock reading, the identifier and the body of \<^verbatim>\<open>generatePropertyCode\<close>, which has no
  \<^verbatim>\<open>await\<close> of its own and runs when it is called; an error of it is thrown when the
  call goes on, with no further effect. The result is the entity \<^verbatim>\<open>newProperty\<close>, made
  of values that the call holds by then. What comes after the \<^verbatim>\<open>await\<close> is
  \<open>propertyCreateResume\<close>: the entity is stored.
\<close>

definition propertyCreateStart ::
  "int \<Rightarrow> string \<Rightarrow> int \<Rightarrow> int \<Rightarrow> json \<Rightarrow> state \<Rightarrow> (error + PropertyEntity) \<times> state" where
  "propertyCreateStart now uuid today seqNow body s =
     (case createSchema body of
        None \<Rightarrow> (Inl (ServiceError VALIDATION_ERROR 400), s)
      | Some params \<Rightarrow>
          if checkDuplicateAddress s (c_endereco_completo params) (c_bairro params)
               (c_cep params) (c_cidade params) (c_estado params)
          then (Inl (ServiceError DUPLICATE_ADDRESS 409), s)
          else if MAX_RECORDS \<le> count s
          then (Inl (ServiceError MAX_RECORDS_REACHED 507), s)
          else
            (case generatePropertyCode today seqNow s of
               (Inl e, s') \<Rightarrow> (Inl e, s')
             | (Inr codigo, s') \<Rightarrow> (Inr (newProperty uuid codigo params now), s')))"

definition propertyCreateResume :: "PropertyEntity \<Rightarrow> state \<Rightarrow> PropertyEntity \<times> state" where
  "propertyCreateResume r s = (r, add r s)"

text \<open>The object literal \<^verbatim>\<open>updated\<close> of \<^verbatim>\<open>propertyUpdate\<close>: \<^verbatim>\<open>{ ...existing, ... }\<close>.\<close>

definition updatedEntity :: "PropertyEntity \<Rightarrow> UpdateInput \<Rightarrow> PropertyEntity" where
  "updatedEntity existing params =
     existing
       \<lparr>tipo_propriedade := u_tipo_propriedade params,
        endereco_completo := u_endereco_completo params,
        cep := u_cep params,
        bairro := u_bairro params,
        cidade := u_cidade params,
        estado := u_estado params,
        area_total := u_area_total params,
        quartos := u_quartos params,
        banheiros := u_banheiros params,
        vagas_garagem := u_vagas_garagem params,
        valor_aluguel := u_valor_aluguel params,
        valor_condominio := u_valor_condominio params,
        valor_iptu := u_valor_iptu params,
        descricao := u_descricao params,
        status := u_status params\<rparr>"

definition propertyUpdate :: "string \<Rightarrow> json \<Rightarrow> state \<Rightarrow> (error + PropertyEntity) \<times> state" where
  "propertyUpdate pid body s =
     (case updateSchema body of
        None \<Rightarrow> (Inl (ServiceError VALIDATION_ERROR 400), s)
      | Some params \<Rightarrow>
          (case getById s pid of
             None \<Rightarrow> (Inl (ServiceError NOT_FOUND 404), s)
           | Some existing \<Rightarrow>
               if list_ex (\<lambda>p. property_id p \<noteq> pid
                     \<and> toLowerCase (endereco_completo p) = toLowerCase (u_endereco_completo params)
                     \<and> toLowerCase (bairro p) = toLowerCase (u_bairro params)
                     \<and> cep p = u_cep params
                     \<and> toLowerCase (cidade p) = toLowerCase (u_cidade params)
                     \<and> toUpperCase (estado p) = toUpperCase (u_estado params))
                    (getAll s)
               then (Inl (ServiceError DUPLICATE_ADDRESS 409), s)
               else (Inr (updatedEntity existing params),
                     update pid (updatedEntity existing params) s)))"

text \<open>The projection that \<^verbatim>\<open>propertyList\<close> returns for each record.\<close>

record PropertyListResponse =
  l_property_id :: string
  l_codigo_propriedade :: string
  l_tipo_propriedade :: string
  l_endereco_completo :: string
  l_bairro :: string
  l_cidade :: string
  l_estado :: string
  l_valor_aluguel :: real
  l_status :: string
  l_data_cadastro :: int

definition propertyList :: "state \<Rightarrow> PropertyListResponse list" where
  "propertyList s =
     map (\<lambda>p. \<lparr>l_property_id = property_id p, l_codigo_propriedade = codigo_propriedade p,
               l_tipo_propriedade = tipo_propriedade p, l_endereco_completo = endereco_completo p,
               l_bairro = bairro p, l_cidade = cidade p, l_estado = estado p,
               l_valor_aluguel = valor_aluguel p, l_status = status p,
               l_data_cadastro = data_cadastro p\<rparr>)
       (getAll s)"

definition propertyGet :: "string \<Rightarrow> state \<Rightarrow> error + PropertyEntity" where
  "propertyGet pid s =
     (case getById s pid of None \<Rightarrow> Inl (ServiceError NOT_FOUND 404) | Some r \<Rightarrow> Inr r)"

text \<open>
  \<^verbatim>\<open>validateCep\<close> reads no store. The outcome of the request to the postal-code
  service is a parameter.
\<close>

record ViaCepResponse =
  v_cep :: string
  v_logradouro :: string
  v_complemento :: string
  v_bairro :: string
  v_localidade :: string
  v_uf :: string
  v_erro :: bool

datatype fetch_outcome = FetchFailed | ResponseNotOk | ResponseJson ViaCepResponse

definition cepValidationSchema :: "json \<Rightarrow> string option" where
  "cepValidationSchema v = (case v of JObj obj \<Rightarrow> cepSchema (getProp obj ''cep'') | _ \<Rightarrow> None)"

definition validateCep :: "json \<Rightarrow> fetch_outcome \<Rightarrow> error + ViaCepResponse option" where
  "validateCep cep' outcome =
     (case cepValidationSchema (JObj [(''cep'', cep')]) of
        None \<Rightarrow> Inl (ServiceError VALIDATION_ERROR 400)
      | Some _ \<Rightarrow>
          (case outcome of
             FetchFailed \<Rightarrow> Inr None
           | ResponseNotOk \<Rightarrow> Inr None
           | ResponseJson data \<Rightarrow>
               if v_erro data then Inl (ServiceError NOT_FOUND 404) else Inr (Some data)))"

section \<open>Property history service\<close>

subsection \<open>\<^verbatim>\<open>PropertyHistoryStore\<close> and \<^verbatim>\<open>PropertyAuditStore\<close>\<close>

definition addChange :: "PropertyHistoryChangeRecord \<Rightarrow> state \<Rightarrow> state" where
  "addChange c s = s\<lparr>hist_changes := AList.update (change_id c) c (hist_changes s)\<rparr>"

definition addEvent :: "PropertyLifecycleEventRecord \<Rightarrow> state \<Rightarrow> state" where
  "addEvent e s = s\<lparr>hist_events := AList.update (event_id e) e (hist_events s)\<rparr>"

text \<open>
  The comparator \<^verbatim>\<open>(a, b) => time(b) - time(a)\<close> of the stable \<^verbatim>\<open>Array.prototype.sort\<close>
  puts the latest record first and keeps insertion order among equal times.
\<close>

definition getChangesByPropertyId :: "state \<Rightarrow> string \<Rightarrow> PropertyHistoryChangeRecord list" where
  "getChangesByPropertyId s pid =
     sort_key (\<lambda>c. - change_date c) (filter (\<lambda>c. ch_property_id c = pid) (map snd (hist_changes s)))"

definition getEventsByPropertyId :: "state \<Rightarrow> string \<Rightarrow> PropertyLifecycleEventRecord list" where
  "getEventsByPropertyId s pid =
     sort_key (\<lambda>e. - event_date e) (filter (\<lambda>e. ev_property_id e = pid) (map snd (hist_events s)))"

definition addAudit :: "PropertyHistoryAuditRecord \<Rightarrow> state \<Rightarrow> state" where
  "addAudit a s = s\<lparr>audits := AList.update (audit_id a) a (audits s)\<rparr>"

subsection \<open>Validation of a history query\<close>

text \<open>
  The identifier check of the schema library: five groups of 8, 4, 4, 4 and 12
  hexadecimal digits separated by hyphens.
\<close>

definition isUuid :: "string \<Rightarrow> bool" where
  "isUuid s =
     (length s = 36 \<and>
      list_all (\<lambda>(i, c). if i \<in> {8, 13, 18, 23} then c = CHR ''-'' else isHex c) (enumerate 0 s))"

text \<open>
  \<^verbatim>\<open>dateSchema\<close>: the pattern \<^verbatim>\<open>/^\d{4}-\d{2}-\d{2}$/\<close>, a valid date, and not later than
  the clock reading \<open>now\<close> taken by the check.
\<close>

definition dateSchema :: "int \<Rightarrow> json \<Rightarrow> string option" where
  "dateSchema now =
     zRefine zString (\<lambda>s. isDateOnly s \<and> newDate s \<noteq> None \<and> dateLe (newDate s) (Some now))"

definition changeTypeSchema :: "json \<Rightarrow> string option" where
  "changeTypeSchema = zEnum PROPERTY_CHANGE_TYPES"

text \<open>The truthiness of an optional string: absent and empty are false.\<close>

definition truthy :: "string option \<Rightarrow> bool" where
  "truthy v = (case v of None \<Rightarrow> False | Some x \<Rightarrow> x \<noteq> [])"

definition historyQuerySchema :: "int \<Rightarrow> int \<Rightarrow> json \<Rightarrow> HistoryQueryInput option" where
  "historyQuerySchema nowStart nowEnd params =
     (case params of
        JObj obj \<Rightarrow> do {
          pid \<leftarrow> zRefine zString isUuid (getProp obj ''property_id'');
          sd \<leftarrow> zOptional (dateSchema nowStart) (getProp obj ''start_date'');
          ed \<leftarrow> zOptional (dateSchema nowEnd) (getProp obj ''end_date'');
          ct \<leftarrow> zOptional changeTypeSchema (getProp obj ''change_type'');
          ru \<leftarrow> zOptional (zRefine zString (\<lambda>s. 1 \<le> length s)) (getProp obj ''responsible_user'');
          check (case (sd, ed) of
                   (Some a, Some b) \<Rightarrow>
                     if truthy sd \<and> truthy ed then dateLe (newDate a) (newDate b) else True
                 | _ \<Rightarrow> True);
          Some \<lparr>q_property_id = pid, start_date = sd, end_date = ed, q_change_type = ct,
                 responsible_user = ru\<rparr>
        }
      | _ \<Rightarrow> None)"

subsection \<open>The service functions\<close>

record HistorySummary =
  total_changes :: nat
  total_events :: nat
  first_change_date :: "int option"
  last_change_date :: "int option"

record PropertyHistoryResponse =
  changes :: "PropertyHistoryChangeRecord list"
  lifecycle_events :: "PropertyLifecycleEventRecord list"
  summary :: HistorySummary

text \<open>\<^verbatim>\<open>if (v) { xs = f(v, xs) }\<close> for an optional string \<open>v\<close>.\<close>

definition whenGiven :: "string option \<Rightarrow> (string \<Rightarrow> 'a list \<Rightarrow> 'a list) \<Rightarrow> 'a list \<Rightarrow> 'a list" where
  "whenGiven v f xs = (case v of None \<Rightarrow> xs | Some x \<Rightarrow> if x \<noteq> [] then f x xs else xs)"

definition registerAuditLog ::
  "string \<Rightarrow> string \<Rightarrow> HistoryQueryInput \<Rightarrow> nat \<Rightarrow> bool \<Rightarrow> string option \<Rightarrow> string \<Rightarrow> int \<Rightarrow> state \<Rightarrow> state" where
  "registerAuditLog user pid filters returned exported' format uuid now s =
     addAudit \<lparr>audit_id = uuid, user_id = user, consulted_property_id = pid,
               consultation_timestamp = now, applied_filters = filters,
               records_returned = returned, exported = exported', export_format = format\<rparr> s"

text \<open>
  \<^verbatim>\<open>propertyHistoryQuery\<close>: \<open>tz\<close> is the time zone of the server,
  \<open>nowStart\<close> and \<open>nowEnd\<close> are the clock readings of the two date checks, \<open>uuid\<close> and
  \<open>auditNow\<close> the identifier and the clock reading of the audit record. The call is
  suspended at \<^verbatim>\<open>await registerAuditLog(...)\<close>, whose body has run by then, and only
  returns its response when it goes on.
\<close>

definition propertyHistoryQuery ::
  "timezone \<Rightarrow> int \<Rightarrow> int \<Rightarrow> string \<Rightarrow> int \<Rightarrow> json \<Rightarrow> state \<Rightarrow> (error + PropertyHistoryResponse) \<times> state" where
  "propertyHistoryQuery tz nowStart nowEnd uuid auditNow params s =
     (case historyQuerySchema nowStart nowEnd params of
        None \<Rightarrow> (Inl (ServiceError VALIDATION_ERROR 400), s)
      | Some queryParams \<Rightarrow>
          (case getById s (q_property_id queryParams) of
             None \<Rightarrow> (Inl (ServiceError NOT_FOUND 404), s)
           | Some property \<Rightarrow>
               (let changes0 = getChangesByPropertyId s (q_property_id queryParams);
                    changes1 = whenGiven (start_date queryParams)
                      (\<lambda>sd. filter (\<lambda>c. dateGe (Some (change_date c)) (newDate sd))) changes0;
                    changes2 = whenGiven (end_date queryParams)
                      (\<lambda>ed. filter (\<lambda>c. dateLe (Some (change_date c))
                                           (setHoursEndOfDay tz (newDate ed)))) changes1;
                    changes3 = whenGiven (q_change_type queryParams)
                      (\<lambda>ct xs. if ct \<noteq> CHANGE_TYPE_TODOS then filter (\<lambda>c. change_type c = ct) xs
                                else xs) changes2;
                    changes4 = whenGiven (responsible_user queryParams)
                      (\<lambda>ru. filter (\<lambda>c. toLowerCase (user_responsible c) = toLowerCase ru)) changes3;
                    events0 = getEventsByPropertyId s (q_property_id queryParams);
                    events1 = whenGiven (start_date queryParams)
                      (\<lambda>sd. filter (\<lambda>e. dateGe (Some (event_date e)) (newDate sd))) events0;
                    events2 = whenGiven (end_date queryParams)
                      (\<lambda>ed. filter (\<lambda>e. dateLe (Some (event_date e))
                                           (setHoursEndOfDay tz (newDate ed)))) events1;
                    allChanges = getChangesByPropertyId s (q_property_id queryParams);
                    sortedChanges = sort_key change_date allChanges;
                    summary' = \<lparr>total_changes = length changes4,
                                total_events = length events2,
                                first_change_date =
                                  (case sortedChanges of [] \<Rightarrow> None | c # _ \<Rightarrow> Some (change_date c)),
                                last_change_date =
                                  (if sortedChanges = [] then None
                                   else Some (change_date (last sortedChanges)))\<rparr>;
                    s' = registerAuditLog ''system'' (q_property_id queryParams) queryParams
                           (length changes4 + length events2) False None uuid auditNow s
                in (Inr \<lparr>changes = changes4, lifecycle_events = events2, summary = summary'\<rparr>, s'))))"

record LifecycleEventParams =
  le_property_id :: string
  le_event_type :: string
  le_event_description :: string
  le_related_contract_id :: "string option"
  le_related_tenant_id :: "string option"
  le_event_impact :: string

text \<open>\<^verbatim>\<open>v || null\<close> for an optional string.\<close>

definition orNull :: "string option \<Rightarrow> string option" where
  "orNull v = (if truthy v then v else None)"

definition registerLifecycleEvent ::
  "LifecycleEventParams \<Rightarrow> string \<Rightarrow> int \<Rightarrow> state \<Rightarrow> PropertyLifecycleEventRecord \<times> state" where
  "registerLifecycleEvent params uuid now s =
     (let event = \<lparr>event_id = uuid,
                    ev_property_id = le_property_id params,
                    event_type = le_event_type params,
                    event_date = now,
                    event_description = le_event_description params,
                    related_contract_id = orNull (le_related_contract_id params),
                    related_tenant_id = orNull (le_related_tenant_id params),
                    event_impact = le_event_impact params\<rparr>
      in (event, addEvent event s))"

record PropertyChangeParams =
  pc_property_id :: string
  pc_user_responsible :: string
  pc_field_modified :: string
  pc_previous_value :: "string option"
  pc_new_value :: string
  pc_change_reason :: string
  pc_property_status :: string
  pc_change_type :: string

definition registerPropertyChange ::
  "PropertyChangeParams \<Rightarrow> string \<Rightarrow> int \<Rightarrow> state \<Rightarrow> PropertyHistoryChangeRecord \<times> state" where
  "registerPropertyChange params uuid now s =
     (let change = \<lparr>change_id = uuid,
                     ch_property_id = pc_property_id params,
                     change_date = now,
                     user_responsible = pc_user_responsible params,
                     field_modified = pc_field_modified params,
                     previous_value = pc_previous_value params,
                     new_value = pc_new_value params,
                     change_reason = pc_change_reason params,
                     property_status = pc_property_status params,
                     change_type = pc_change_type params\<rparr>
      in (change, addChange change s))"

section \<open>Sequences of service calls\<close>

text \<open>
  The exported service functions, each with its arguments and the values it takes from
  the environment. There is no other way into the stores: the routes call
  \<^verbatim>\<open>propertyList\<close>, \<^verbatim>\<open>propertyCreate\<close>, \<^verbatim>\<open>propertyGet\<close>, \<^verbatim>\<open>propertyUpdate\<close>,
  \<^verbatim>\<open>validateCep\<close> and \<^verbatim>\<open>propertyHistoryQuery\<close>.

  The program has one thread, and a call runs without interruption up to an \<^verbatim>\<open>await\<close>.
  Only \<^verbatim>\<open>propertyCreate\<close> uses a store after an \<^verbatim>\<open>await\<close>, so only its two parts are
  steps of their own: \<open>PropertyCreateStart\<close> is a call up to its \<^verbatim>\<open>await\<close>, which
  joins the suspended calls unless it has failed, and \<open>PropertyCreateResume k\<close> lets the
  suspended call at position \<open>k\<close> go on. \<open>PropertyCreate\<close> is a call that is awaited
  before anything else runs. \<^verbatim>\<open>propertyUpdate\<close>, \<^verbatim>\<open>propertyGet\<close>, \<^verbatim>\<open>propertyList\<close>,
  \<^verbatim>\<open>registerLifecycleEvent\<close> and \<^verbatim>\<open>registerPropertyChange\<close> have no \<^verbatim>\<open>await\<close>,
  \<^verbatim>\<open>propertyHistoryQuery\<close> only returns after its own, and \<^verbatim>\<open>validateCep\<close> uses no
  store.
\<close>

datatype op =
    PropertyCreate int string int int json
  | PropertyCreateStart int string int int json
  | PropertyCreateResume nat
  | PropertyUpdate string json
  | PropertyGet string
  | PropertyList
  | ValidateCep json fetch_outcome
  | PropertyHistoryQuery timezone int int string int json
  | RegisterLifecycleEvent LifecycleEventParams string int
  | RegisterPropertyChange PropertyChangeParams string int

text \<open>The state a step leaves.\<close>

fun exec :: "op \<Rightarrow> state \<Rightarrow> state" where
  "exec (PropertyCreate now uuid today seqNow body) s = snd (propertyCreate now uuid today seqNow body s)"
| "exec (PropertyCreateStart now uuid today seqNow body) s =
     (case propertyCreateStart now uuid today seqNow body s of
        (Inl e, s') \<Rightarrow> s'
      | (Inr r, s') \<Rightarrow> s'\<lparr>pending := pending s' @ [r]\<rparr>)"
| "exec (PropertyCreateResume k) s =
     (if k < length (pending s)
      then snd (propertyCreateResume (pending s ! k)
                  (s\<lparr>pending := take k (pending s) @ drop (Suc k) (pending s)\<rparr>))
      else s)"
| "exec (PropertyUpdate pid body) s = snd (propertyUpdate pid body s)"
| "exec (PropertyGet pid) s = s"
| "exec PropertyList s = s"
| "exec (ValidateCep c outcome) s = s"
| "exec (PropertyHistoryQuery tz nowStart nowEnd uuid auditNow params) s =
     snd (propertyHistoryQuery tz nowStart nowEnd uuid auditNow params s)"
| "exec (RegisterLifecycleEvent params uuid now) s = snd (registerLifecycleEvent params uuid now s)"
| "exec (RegisterPropertyChange params uuid now) s = snd (registerPropertyChange params uuid now s)"

fun run :: "state \<Rightarrow> op list \<Rightarrow> state" where
  "run s [] = s"
| "run s (x # xs) = run (exec x s) xs"


section \<open>Properties of states and runs\<close>



text \<open>Every entry of the property store is filed under its own \<^verbatim>\<open>property_id\<close>.\<close>

definition keyedById :: "state \<Rightarrow> bool" where
  "keyedById s = (\<forall>e \<in> set (properties s). property_id (snd e) = fst e)"

text \<open>
  The identifier that a call takes from \<^verbatim>\<open>uuidv4()\<close> is fresh: it is not a key of the
  store when the call writes to it. A call of \<^verbatim>\<open>propertyCreate\<close> writes when it goes
  on after its \<^verbatim>\<open>await\<close>.
\<close>

fun freshOp :: "state \<Rightarrow> op \<Rightarrow> bool" where
  "freshOp s (PropertyCreate now uuid today seqNow body) = (uuid \<notin> fst ` set (properties s))"
| "freshOp s (PropertyCreateStart now uuid today seqNow body) = True"
| "freshOp s (PropertyCreateResume k) =
     (k < length (pending s) \<longrightarrow> property_id (pending s ! k) \<notin> fst ` set (properties s))"
| "freshOp s (PropertyHistoryQuery tz nowStart nowEnd uuid auditNow params) =
     (uuid \<notin> fst ` set (audits s))"
| "freshOp s (RegisterLifecycleEvent params uuid now) = (uuid \<notin> fst ` set (hist_events s))"
| "freshOp s (RegisterPropertyChange params uuid now) = (uuid \<notin> fst ` set (hist_changes s))"
| "freshOp s (PropertyUpdate pid body) = True"
| "freshOp s (PropertyGet pid) = True"
| "freshOp s PropertyList = True"
| "freshOp s (ValidateCep c outcome) = True"

fun freshRun :: "state \<Rightarrow> op list \<Rightarrow> bool" where
  "freshRun s [] = True"
| "freshRun s (x # xs) = (freshOp s x \<and> freshRun (exec x s) xs)"



text \<open>All change records of a property, whatever their date, type or user.\<close>

definition changesOf :: "state \<Rightarrow> string \<Rightarrow> PropertyHistoryChangeRecord list" where
  "changesOf s pid = filter (\<lambda>c. ch_property_id c = pid) (map snd (hist_changes s))"

text \<open>The identity and the registration data of a property are those of another.\<close>

definition sameIdentity :: "PropertyEntity \<Rightarrow> PropertyEntity \<Rightarrow> bool" where
  "sameIdentity p q =
     (property_id q = property_id p \<and> codigo_propriedade q = codigo_propriedade p
        \<and> data_cadastro q = data_cadastro p \<and> usuario_cadastro q = usuario_cadastro p)"

section \<open>Sample data\<close>

definition sampleBody :: json where
  "sampleBody = JObj
     [(''tipo_propriedade'', JStr ''Casa''),
      (''endereco_completo'', JStr ''Rua das Flores, 123''),
      (''cep'', JStr ''01310-100''),
      (''bairro'', JStr ''Centro''),
      (''cidade'', JStr ''Sao Paulo''),
      (''estado'', JStr ''SP''),
      (''area_total'', JNum 150.5),
      (''quartos'', JNum 3),
      (''banheiros'', JNum 2),
      (''vagas_garagem'', JNum 2),
      (''valor_aluguel'', JNum 2500),
      (''valor_condominio'', JNum 350),
      (''valor_iptu'', JNum 1200),
      (''descricao'', JStr ''Casa ampla com quintal''),
      (''usuario_cadastro'', JStr ''user123'')]"

definition sampleParams :: CreateInput where
  "sampleParams =
     \<lparr>c_tipo_propriedade = ''Casa'', c_endereco_completo = ''Rua das Flores, 123'',
      c_cep = ''01310-100'', c_bairro = ''Centro'', c_cidade = ''Sao Paulo'', c_estado = ''SP'',
      c_area_total = 150.5, c_quartos = Some 3, c_banheiros = Some 2, c_vagas_garagem = 2,
      c_valor_aluguel = 2500, c_valor_condominio = Some 350, c_valor_iptu = Some 1200,
      c_descricao = Some ''Casa ampla com quintal'', c_usuario_cadastro = ''user123''\<rparr>"

text \<open>The same address in another spelling.\<close>

definition sampleParamsUpper :: CreateInput where
  "sampleParamsUpper =
     \<lparr>c_tipo_propriedade = ''Loja'', c_endereco_completo = ''RUA DAS FLORES, 123'',
      c_cep = ''01310-100'', c_bairro = ''CENTRO'', c_cidade = ''SAO PAULO'', c_estado = ''SP'',
      c_area_total = 80, c_quartos = None, c_banheiros = Some 1, c_vagas_garagem = 0,
      c_valor_aluguel = 4000, c_valor_condominio = None, c_valor_iptu = None,
      c_descricao = None, c_usuario_cadastro = ''user456''\<rparr>"

definition sampleBodyUpper :: json where
  "sampleBodyUpper = JObj
     [(''tipo_propriedade'', JStr ''Loja''),
      (''endereco_completo'', JStr ''RUA DAS FLORES, 123''),
      (''cep'', JStr ''01310-100''),
      (''bairro'', JStr ''CENTRO''),
      (''cidade'', JStr ''SAO PAULO''),
      (''estado'', JStr ''SP''),
      (''area_total'', JNum 80),
      (''quartos'', JNull),
      (''banheiros'', JNum 1),
      (''vagas_garagem'', JNum 0),
      (''valor_aluguel'', JNum 4000),
      (''valor_condominio'', JNull),
      (''valor_iptu'', JNull),
      (''descricao'', JNull),
      (''usuario_cadastro'', JStr ''user456'')]"

definition sampleUpdateBody :: json where
  "sampleUpdateBody = JObj
     [(''tipo_propriedade'', JStr ''Casa''),
      (''endereco_completo'', JStr ''Rua Nova, 456''),
      (''cep'', JStr ''01310-200''),
      (''bairro'', JStr ''Centro''),
      (''cidade'', JStr ''Sao Paulo''),
      (''estado'', JStr ''SP''),
      (''area_total'', JNum 180),
      (''quartos'', JNum 4),
      (''banheiros'', JNum 3),
      (''vagas_garagem'', JNum 2),
      (''valor_aluguel'', JNum 3000),
      (''valor_condominio'', JNum 400),
      (''valor_iptu'', JNum 1500),
      (''descricao'', JStr ''Casa reformada''),
      (''status'', JStr ''Ocupada'')]"

definition sampleUpdateParams :: UpdateInput where
  "sampleUpdateParams =
     \<lparr>u_tipo_propriedade = ''Casa'', u_endereco_completo = ''Rua Nova, 456'',
      u_cep = ''01310-200'', u_bairro = ''Centro'', u_cidade = ''Sao Paulo'', u_estado = ''SP'',
      u_area_total = 180, u_quartos = Some 4, u_banheiros = Some 3, u_vagas_garagem = 2,
      u_valor_aluguel = 3000, u_valor_condominio = Some 400, u_valor_iptu = Some 1500,
      u_descricao = Some ''Casa reformada'', u_status = ''Ocupada''\<rparr>"

definition sampleId :: string where
  "sampleId = ''550e8400-e29b-41d4-a716-446655440000''"

text \<open>2025-01-28T00:00:00.123Z\<close>

definition sampleTime :: int where
  "sampleTime = 1738022400123"

definition sampleProperty :: PropertyEntity where
  "sampleProperty = newProperty sampleId ''PROP-20250128-001'' sampleParams sampleTime"

text \<open>The state after the first property has been created.\<close>

definition sampleState :: state where
  "sampleState =
     \<lparr>properties = [(sampleId, sampleProperty)],
      seq_records = [(''20250128'', \<lparr>data_referencia = ''20250128'', ultimo_sequencial = 1,
                                      created_at = sampleTime, updated_at = sampleTime\<rparr>)],
      seq_locks = [], hist_changes = [], hist_events = [], audits = [], pending = []\<rparr>"

text \<open>A second property, at another address, and the state after it has been created.\<close>

definition sampleBody2 :: json where
  "sampleBody2 = JObj
     [(''tipo_propriedade'', JStr ''Apartamento''),
      (''endereco_completo'', JStr ''Avenida Paulista, 1000''),
      (''cep'', JStr ''01310-100''),
      (''bairro'', JStr ''Bela Vista''),
      (''cidade'', JStr ''Sao Paulo''),
      (''estado'', JStr ''SP''),
      (''area_total'', JNum 70),
      (''quartos'', JNum 2),
      (''banheiros'', JNum 1),
      (''vagas_garagem'', JNum 1),
      (''valor_aluguel'', JNum 3200),
      (''valor_condominio'', JNum 800),
      (''valor_iptu'', JNull),
      (''descricao'', JNull),
      (''usuario_cadastro'', JStr ''user123'')]"

definition sampleParams2 :: CreateInput where
  "sampleParams2 =
     \<lparr>c_tipo_propriedade = ''Apartamento'', c_endereco_completo = ''Avenida Paulista, 1000'',
      c_cep = ''01310-100'', c_bairro = ''Bela Vista'', c_cidade = ''Sao Paulo'',
      c_estado = ''SP'', c_area_total = 70, c_quartos = Some 2, c_banheiros = Some 1,
      c_vagas_garagem = 1, c_valor_aluguel = 3200, c_valor_condominio = Some 800,
      c_valor_iptu = None, c_descricao = None, c_usuario_cadastro = ''user123''\<rparr>"

definition sampleId2 :: string where
  "sampleId2 = ''550e8400-e29b-41d4-a716-446655440001''"

definition sampleProperty2 :: PropertyEntity where
  "sampleProperty2 = newProperty sampleId2 ''PROP-20250128-002'' sampleParams2 sampleTime"

definition twoState :: state where
  "twoState =
     \<lparr>properties = [(sampleId, sampleProperty), (sampleId2, sampleProperty2)],
      seq_records = [(''20250128'', \<lparr>data_referencia = ''20250128'', ultimo_sequencial = 2,
                                      created_at = sampleTime, updated_at = sampleTime\<rparr>)],
      seq_locks = [], hist_changes = [], hist_events = [], audits = [], pending = []\<rparr>"



text \<open>
  A history of the first property: three changes (2025-01-28T00:00:00.123Z,
  2025-02-10T12:00:00.000Z and 2025-03-05T00:00:00.000Z) and two events, and one change
  of the second property.
\<close>

definition sampleChange1 :: PropertyHistoryChangeRecord where
  "sampleChange1 =
     \<lparr>change_id = ''c1'', ch_property_id = sampleId, change_date = 1738022400123,
      user_responsible = ''admin'', field_modified = ''status'', previous_value = None,
      new_value = ''Ocupada'', change_reason = ''Contrato assinado'',
      property_status = ''Ocupada'', change_type = ''alteracoes_status_propriedade''\<rparr>"

definition sampleChange2 :: PropertyHistoryChangeRecord where
  "sampleChange2 =
     \<lparr>change_id = ''c2'', ch_property_id = sampleId, change_date = 1739188800000,
      user_responsible = ''user123'', field_modified = ''valor_aluguel'',
      previous_value = Some ''2500.00'', new_value = ''2800.00'',
      change_reason = ''Reajuste anual conforme contrato'', property_status = ''Ocupada'',
      change_type = ''mudancas_valor_aluguel''\<rparr>"

definition sampleChange3 :: PropertyHistoryChangeRecord where
  "sampleChange3 =
     \<lparr>change_id = ''c3'', ch_property_id = sampleId, change_date = 1741132800000,
      user_responsible = ''user123'', field_modified = ''valor_aluguel'',
      previous_value = Some ''2800.00'', new_value = ''3000.00'',
      change_reason = ''Reajuste'', property_status = ''Ocupada'',
      change_type = ''mudancas_valor_aluguel''\<rparr>"

definition sampleChangeOther :: PropertyHistoryChangeRecord where
  "sampleChangeOther =
     \<lparr>change_id = ''c4'', ch_property_id = sampleId2, change_date = 1739188800000,
      user_responsible = ''user123'', field_modified = ''valor_aluguel'',
      previous_value = Some ''3200.00'', new_value = ''3300.00'',
      change_reason = ''Reajuste'', property_status = ''Ocupada'',
      change_type = ''mudancas_valor_aluguel''\<rparr>"

definition sampleEvent1 :: PropertyLifecycleEventRecord where
  "sampleEvent1 =
     \<lparr>event_id = ''e1'', ev_property_id = sampleId, event_type = ''criacao_propriedade_sistema'',
      event_date = 1738022400123, event_description = ''Propriedade criada no sistema'',
      related_contract_id = None, related_tenant_id = None,
      event_impact = ''Propriedade disponivel''\<rparr>"

definition sampleEvent2 :: PropertyLifecycleEventRecord where
  "sampleEvent2 =
     \<lparr>event_id = ''e2'', ev_property_id = sampleId, event_type = ''entrada_inquilino'',
      event_date = 1739188800000, event_description = ''Entrada do inquilino'',
      related_contract_id = Some ''k1'', related_tenant_id = Some ''t1'',
      event_impact = ''Propriedade ocupada''\<rparr>"

definition histState :: state where
  "histState = twoState
     \<lparr>hist_changes := [(''c1'', sampleChange1), (''c2'', sampleChange2), (''c4'', sampleChangeOther),
                        (''c3'', sampleChange3)],
      hist_events := [(''e1'', sampleEvent1), (''e2'', sampleEvent2)]\<rparr>"

text \<open>
  A query for the changes of the rent of the first property in February 2025 by
  \<^verbatim>\<open>USER123\<close>, asked on 2025-03-10 by a server three hours behind UTC.
\<close>

definition sampleQuery :: json where
  "sampleQuery = JObj
     [(''property_id'', JStr sampleId),
      (''start_date'', JStr ''2025-02-01''),
      (''end_date'', JStr ''2025-02-28''),
      (''change_type'', JStr ''mudancas_valor_aluguel''),
      (''responsible_user'', JStr ''USER123'')]"

definition sampleQueryInput :: HistoryQueryInput where
  "sampleQueryInput =
     \<lparr>q_property_id = sampleId, start_date = Some ''2025-02-01'', end_date = Some ''2025-02-28'',
      q_change_type = Some ''mudancas_valor_aluguel'', responsible_user = Some ''USER123''\<rparr>"

definition sampleQueryTime :: int where
  "sampleQueryTime = 1741564800000"

text \<open>A time zone whose offset never changes.\<close>

definition fixedZone :: "int \<Rightarrow> timezone" where
  "fixedZone off = \<lparr>utcOffset = (\<lambda>t. off), localOffset = (\<lambda>x. off)\<rparr>"

definition sampleTz :: timezone where
  "sampleTz = fixedZone (- 10800000)"

definition sampleAudit :: PropertyHistoryAuditRecord where
  "sampleAudit =
     \<lparr>audit_id = ''a1'', user_id = ''system'', consulted_property_id = sampleId,
      consultation_timestamp = sampleQueryTime, applied_filters = sampleQueryInput,
      records_returned = 2, exported = False, export_format = None\<rparr>"

definition sampleResponse :: PropertyHistoryResponse where
  "sampleResponse =
     \<lparr>changes = [sampleChange2], lifecycle_events = [sampleEvent2],
      summary = \<lparr>total_changes = 1, total_events = 1, first_change_date = Some 1738022400123,
                  last_change_date = Some 1741132800000\<rparr>\<rparr>"








text \<open>A query that no change record matches.\<close>

definition sampleQueryNobody :: json where
  "sampleQueryNobody = JObj
     [(''property_id'', JStr sampleId), (''responsible_user'', JStr ''nobody'')]"

text \<open>A query for a property that does not exist.\<close>

definition sampleQueryUnknown :: json where
  "sampleQueryUnknown = JObj [(''property_id'', JStr ''550e8400-e29b-41d4-a716-44665544ffff'')]"

definition sampleChangeParams :: PropertyChangeParams where
  "sampleChangeParams =
     \<lparr>pc_property_id = sampleId, pc_user_responsible = ''user123'',
      pc_field_modified = ''valor_aluguel'', pc_previous_value = Some ''2500.00'',
      pc_new_value = ''2800.00'', pc_change_reason = ''Reajuste anual conforme contrato'',
      pc_property_status = ''Ocupada'', pc_change_type = ''mudancas_valor_aluguel''\<rparr>"

definition sampleEventParams :: LifecycleEventParams where
  "sampleEventParams =
     \<lparr>le_property_id = sampleId, le_event_type = ''entrada_inquilino'',
      le_event_description = ''Entrada do inquilino'', le_related_contract_id = Some ''k1'',
      le_related_tenant_id = Some [], le_event_impact = ''Propriedade ocupada''\<rparr>"



text \<open>
  Many create requests on one day: request \<open>i\<close> is for a property in a neighbourhood and a
  city whose names have \<open>i mod 100 + 1\<close> and \<open>i div 100 + 1\<close> letters, so that no two of the
  first ten thousand requests have the same address.
\<close>

definition bulkBody :: "nat \<Rightarrow> json" where
  "bulkBody i = JObj
     [(''tipo_propriedade'', JStr ''Casa''),
      (''endereco_completo'', JStr ''Rua das Flores, 123''),
      (''cep'', JStr ''01310-100''),
      (''bairro'', JStr (replicate (Suc (i mod 100)) (CHR ''a''))),
      (''cidade'', JStr (replicate (Suc (i div 100)) (CHR ''b''))),
      (''estado'', JStr ''SP''),
      (''area_total'', JNum 150.5),
      (''quartos'', JNum 3),
      (''banheiros'', JNum 2),
      (''vagas_garagem'', JNum 2),
      (''valor_aluguel'', JNum 2500),
      (''valor_condominio'', JNull),
      (''valor_iptu'', JNull),
      (''descricao'', JNull),
      (''usuario_cadastro'', JStr ''user123'')]"

definition bulkParams :: "nat \<Rightarrow> CreateInput" where
  "bulkParams i =
     \<lparr>c_tipo_propriedade = ''Casa'', c_endereco_completo = ''Rua das Flores, 123'',
      c_cep = ''01310-100'', c_bairro = replicate (Suc (i mod 100)) (CHR ''a''),
      c_cidade = replicate (Suc (i div 100)) (CHR ''b''), c_estado = ''SP'',
      c_area_total = 150.5, c_quartos = Some 3, c_banheiros = Some 2, c_vagas_garagem = 2,
      c_valor_aluguel = 2500, c_valor_condominio = None, c_valor_iptu = None,
      c_descricao = None, c_usuario_cadastro = ''user123''\<rparr>"

definition bulkOps :: "nat \<Rightarrow> op list" where
  "bulkOps n =
     map (\<lambda>i. PropertyCreate sampleTime (digitsOf i) sampleTime sampleTime (bulkBody i)) [0..<n]"

text \<open>The state after the first ten thousand of these requests: the store is at its limit.\<close>

definition fullState :: state where
  "fullState = run initial (bulkOps 10000)"

section \<open>Evaluation of the sample data\<close>

lemmas char_defs = code_def isDigit_def isSpace_def isAddrChar_def isHex_def

lemmas zod_defs = check_def zString_def zNumber_def zEnum_def zNullable_def zOptional_def
  zRefine_def isInteger_def getProp_def

lemmas schema_defs = cepRegex_def cepSchema_def estadoSchema_def tipoPropriedadeSchema_def
  statusSchema_def enderecoRegex_def enderecoSchema_def bairroSchema_def cidadeSchema_def
  areaSchema_def quartosSchema_def banheirosSchema_def vagasSchema_def valorAluguelSchema_def
  valorOpcionalSchema_def descricaoSchema_def

lemmas const_defs = PROPERTY_STATUS_def RESIDENTIAL_TYPES_def COMMERCIAL_TYPES_def
  PROPERTY_TYPES_def VALID_ESTADOS_def ENDERECO_MAX_LENGTH_def CEP_LENGTH_def
  BAIRRO_MAX_LENGTH_def CIDADE_MAX_LENGTH_def AREA_MIN_def AREA_MAX_def QUARTOS_MAX_def
  BANHEIROS_MAX_def VAGAS_MAX_def DESCRICAO_MAX_LENGTH_def

lemma createSchema_sampleBody: "createSchema sampleBody = Some sampleParams"
  by (simp add: createSchema_def sampleBody_def sampleParams_def char_defs zod_defs
      schema_defs const_defs)

lemma createSchema_sampleBodyUpper': "createSchema sampleBodyUpper = Some sampleParamsUpper"
  by (simp add: createSchema_def sampleBodyUpper_def sampleParamsUpper_def char_defs zod_defs
      schema_defs const_defs)

lemma createSchema_sampleBodyUpper: "createSchema sampleBodyUpper \<noteq> None"
  by (simp add: createSchema_sampleBodyUpper')

lemma updateSchema_sampleUpdateBody: "updateSchema sampleUpdateBody = Some sampleUpdateParams"
  by (simp add: updateSchema_def sampleUpdateBody_def sampleUpdateParams_def char_defs zod_defs
      schema_defs const_defs)

lemma digitsOf_small:
  "digitsOf (Suc 0) = ''1''" "digitsOf 2 = ''2''" "digitsOf (Suc (Suc 0)) = ''2''" "digitsOf 28 = ''28''"
  "digitsOf 2025 = ''2025''" "digitsOf 1000 = ''1000''"
  by (simp_all add: digitsOf.simps char_of_def bit_Suc_0_iff)

lemma civilFromDays_sample: "civilFromDays 20116 = (2025, 1, 28)"
  unfolding civilFromDays_def by (simp only: Let_def) simp

lemma dateStr_sampleTime: "dateStr sampleTime = ''20250128''"
proof -
  have d: "sampleTime div msPerDay = 20116"
    by (simp add: sampleTime_def msPerDay_def)
  show ?thesis
    by (simp add: dateStr_def toISOString_def d civilFromDays_sample digitsOf_small
        padStart_def Let_def)
qed

lemma toLowerCase_samples:
  "toLowerCase ''Rua das Flores, 123'' = ''rua das flores, 123''"
  "toLowerCase ''RUA DAS FLORES, 123'' = ''rua das flores, 123''"
  "toLowerCase ''Centro'' = ''centro''"
  "toLowerCase ''CENTRO'' = ''centro''"
  "toLowerCase ''Sao Paulo'' = ''sao paulo''"
  "toLowerCase ''SAO PAULO'' = ''sao paulo''"
  "toLowerCase ''Rua Nova, 456'' = ''rua nova, 456''"
  "toUpperCase ''SP'' = ''SP''"
  by code_simp+

lemma padStart_samples:
  "padStart 3 (CHR ''0'') ''1'' = ''001''" "padStart 3 (CHR ''0'') ''2'' = ''002''"
  "padStart 3 (CHR ''0'') ''1000'' = ''1000''"
  by (simp_all add: padStart_def eval_nat_numeral)

lemma propertyCreate_sample:
  "propertyCreate sampleTime sampleId sampleTime sampleTime sampleBody initial =
     (Inr sampleProperty, sampleState)"
  by (simp add: propertyCreate_def createSchema_sampleBody checkDuplicateAddress_def
      existsByAddress_def initial_def count_def MAX_RECORDS_def generatePropertyCode_def
      getNextSequential_def acquireLock_def releaseLock_def dateStr_sampleTime padStart_samples
      digitsOf_small add_def sampleState_def sampleProperty_def newProperty_def)

lemma propertyUpdate_sample:
  "propertyUpdate sampleId sampleUpdateBody sampleState =
     (Inr (updatedEntity sampleProperty sampleUpdateParams),
      sampleState\<lparr>properties := [(sampleId, updatedEntity sampleProperty sampleUpdateParams)]\<rparr>)"
  by (simp add: propertyUpdate_def updateSchema_sampleUpdateBody getById_def getAll_def
      sampleState_def update_def sampleProperty_def newProperty_def)

section \<open>Property service: outcomes\<close>

lemma propertyUpdate_Inr:
  assumes "propertyUpdate pid body s = (Inr updated, s')"
  obtains params existing where
    "updateSchema body = Some params" "getById s pid = Some existing"
    "updated = updatedEntity existing params" "s' = update pid updated s"
    "\<not> list_ex (\<lambda>p. property_id p \<noteq> pid
           \<and> toLowerCase (endereco_completo p) = toLowerCase (u_endereco_completo params)
           \<and> toLowerCase (bairro p) = toLowerCase (u_bairro params)
           \<and> cep p = u_cep params
           \<and> toLowerCase (cidade p) = toLowerCase (u_cidade params)
           \<and> toUpperCase (estado p) = toUpperCase (u_estado params))
         (getAll s)"
  using assms unfolding propertyUpdate_def
  by (auto split: option.splits if_splits)

lemma getNextSequential_Inl:
  "getNextSequential d now s = (Inl e, s') \<Longrightarrow> s' = s"
  by (auto simp: getNextSequential_def Let_def split: sum.splits option.splits)

lemma generatePropertyCode_Inl:
  "generatePropertyCode today seqNow s = (Inl e, s') \<Longrightarrow> s' = s"
  by (auto simp: generatePropertyCode_def split: prod.splits sum.splits dest: getNextSequential_Inl)

lemma propertyCreate_Inl:
  "propertyCreate now uuid today seqNow body s = (Inl e, s') \<Longrightarrow> s' = s"
  by (auto simp: propertyCreate_def split: option.splits if_splits prod.splits sum.splits
      dest: generatePropertyCode_Inl)

text \<open>
  C10. An update keeps the identity and the registration data of the property: the entity
  returned is the existing one with the fields of the update body replaced, it is what
  the store holds afterwards under the same identifier, and no other entry changes.
\<close>

theorem propertyUpdate_keeps_identity:
  assumes "propertyUpdate pid body s = (Inr updated, s')"
    and "getById s pid = Some existing"
  shows "property_id updated = property_id existing
    \<and> codigo_propriedade updated = codigo_propriedade existing
    \<and> data_cadastro updated = data_cadastro existing
    \<and> usuario_cadastro updated = usuario_cadastro existing
    \<and> getById s' pid = Some updated
    \<and> (\<forall>k. k \<noteq> pid \<longrightarrow> getById s' k = getById s k)
    \<and> (\<exists>params. updateSchema body = Some params \<and> updated = updatedEntity existing params)"
proof -
  from assms(1) obtain params ex where
    p: "updateSchema body = Some params" and e: "getById s pid = Some ex"
    and u: "updated = updatedEntity ex params" and s': "s' = update pid updated s"
    by (rule propertyUpdate_Inr)
  from e assms(2) have ex: "ex = existing" by simp
  have stored: "getById s' pid = Some updated"
    by (simp add: s' getById_def update_def update_conv')
  have others: "\<forall>k. k \<noteq> pid \<longrightarrow> getById s' k = getById s k"
    by (simp add: s' getById_def update_def update_conv')
  from u ex p stored others show ?thesis
    by (simp add: updatedEntity_def)
qed

theorem propertyUpdate_keeps_identity_witness:
  "propertyUpdate sampleId sampleUpdateBody sampleState =
     (Inr (updatedEntity sampleProperty sampleUpdateParams),
      sampleState\<lparr>properties := [(sampleId, updatedEntity sampleProperty sampleUpdateParams)]\<rparr>)
   \<and> getById sampleState sampleId = Some sampleProperty
   \<and> property_id (updatedEntity sampleProperty sampleUpdateParams) = sampleId
   \<and> codigo_propriedade (updatedEntity sampleProperty sampleUpdateParams) = ''PROP-20250128-001''
   \<and> data_cadastro (updatedEntity sampleProperty sampleUpdateParams) = sampleTime
   \<and> usuario_cadastro (updatedEntity sampleProperty sampleUpdateParams) = ''user123''
   \<and> status (updatedEntity sampleProperty sampleUpdateParams) = ''Ocupada''"
proof -
  have g: "getById sampleState sampleId = Some sampleProperty"
    by (simp add: getById_def sampleState_def)
  from propertyUpdate_keeps_identity [OF propertyUpdate_sample g] propertyUpdate_sample g
  show ?thesis
    by (simp add: sampleProperty_def newProperty_def sampleParams_def updatedEntity_def
        sampleUpdateParams_def)
qed

section \<open>Stores as association lists\<close>

lemma update_fresh: "k \<notin> fst ` set al \<Longrightarrow> AList.update k v al = al @ [(k, v)]"
  by (induction al) auto

lemma set_update_distinct:
  assumes "distinct (map fst al)"
  shows "set (AList.update k v al) = insert (k, v) {e \<in> set al. fst e \<noteq> k}"
proof -
  have d: "distinct (map fst (AList.update k v al))"
    using assms by (rule distinct_update)
  show ?thesis
  proof (rule set_eqI)
    fix e :: "'a \<times> 'b"
    obtain k' v' where e: "e = (k', v')" by (cases e)
    have "e \<in> set (AList.update k v al) \<longleftrightarrow> map_of (AList.update k v al) k' = Some v'"
      using d by (simp add: e)
    also have "\<dots> \<longleftrightarrow> ((map_of al)(k \<mapsto> v)) k' = Some v'"
      by (simp add: update_conv')
    also have "\<dots> \<longleftrightarrow> e \<in> insert (k, v) {e \<in> set al. fst e \<noteq> k}"
      using assms by (auto simp: e)
    finally show "e \<in> set (AList.update k v al) \<longleftrightarrow> e \<in> insert (k, v) {e \<in> set al. fst e \<noteq> k}" .
  qed
qed

lemma keys_update: "fst ` set (AList.update k v al) = insert k (fst ` set al)"
  by (simp add: dom_update)

lemma run_append: "run s (xs @ ys) = run (run s xs) ys"
  by (induction xs arbitrary: s) auto

section \<open>What a call leaves untouched\<close>

lemma getNextSequential_frame:
  assumes "getNextSequential d now s = (r, s')"
  shows "properties s' = properties s \<and> hist_changes s' = hist_changes s
    \<and> hist_events s' = hist_events s \<and> audits s' = audits s \<and> pending s' = pending s"
  using assms
  by (auto simp: getNextSequential_def acquireLock_def releaseLock_def Let_def
      split: option.splits if_splits)

lemma generatePropertyCode_frame:
  assumes "generatePropertyCode today seqNow s = (r, s')"
  shows "properties s' = properties s \<and> hist_changes s' = hist_changes s
    \<and> hist_events s' = hist_events s \<and> audits s' = audits s \<and> pending s' = pending s"
proof -
  obtain r0 s0 where g: "getNextSequential (dateStr today) seqNow s = (r0, s0)"
    by (cases "getNextSequential (dateStr today) seqNow s")
  from assms g have "s' = s0"
    by (auto simp: generatePropertyCode_def split: sum.splits)
  with getNextSequential_frame [OF g] show ?thesis by simp
qed

lemma propertyCreate_Inr:
  assumes "propertyCreate now uuid today seqNow body s = (Inr p, s')"
  obtains params codigo s1 where
    "createSchema body = Some params"
    "\<not> existsByAddress s (c_endereco_completo params) (c_bairro params) (c_cep params)
         (c_cidade params) (c_estado params)"
    "count s < MAX_RECORDS"
    "generatePropertyCode today seqNow s = (Inr codigo, s1)"
    "p = newProperty uuid codigo params now"
    "s' = add p s1"
  using assms unfolding propertyCreate_def checkDuplicateAddress_def
  by (auto split: option.splits if_splits prod.splits sum.splits)

lemma propertyCreate_properties:
  "properties (snd (propertyCreate now uuid today seqNow body s)) = properties s
   \<or> (\<exists>p. fst (propertyCreate now uuid today seqNow body s) = Inr p
         \<and> property_id p = uuid
         \<and> properties (snd (propertyCreate now uuid today seqNow body s))
             = AList.update uuid p (properties s))"
proof (cases "propertyCreate now uuid today seqNow body s")
  case (Pair r s')
  show ?thesis
  proof (cases r)
    case (Inl e)
    with Pair have "s' = s" by (auto dest: propertyCreate_Inl)
    with Pair show ?thesis by simp
  next
    case (Inr p)
    with Pair obtain params codigo s1 where
      g: "generatePropertyCode today seqNow s = (Inr codigo, s1)"
      and p: "p = newProperty uuid codigo params now" and s': "s' = add p s1"
      by (auto elim: propertyCreate_Inr)
    from generatePropertyCode_frame [OF g] have "properties s1 = properties s" by simp
    with Pair Inr p s' show ?thesis
      by (simp add: add_def newProperty_def)
  qed
qed

lemma propertyUpdate_properties:
  "properties (snd (propertyUpdate pid body s)) = properties s
   \<or> (\<exists>existing params. getById s pid = Some existing
         \<and> fst (propertyUpdate pid body s) = Inr (updatedEntity existing params)
         \<and> properties (snd (propertyUpdate pid body s))
             = AList.update pid (updatedEntity existing params) (properties s))"
  by (auto simp: propertyUpdate_def update_def split: option.splits)

text \<open>A call of \<^verbatim>\<open>propertyCreate\<close> that nothing interrupts is its two parts in a row.\<close>

lemma propertyCreate_segments:
  "propertyCreate now uuid today seqNow body s =
     (case propertyCreateStart now uuid today seqNow body s of
        (Inl e, s') \<Rightarrow> (Inl e, s')
      | (Inr r, s') \<Rightarrow> (Inr r, snd (propertyCreateResume r s')))"
  by (simp add: propertyCreate_def propertyCreateStart_def propertyCreateResume_def
      split: option.splits prod.splits sum.splits)

lemma propertyCreateStart_frame:
  assumes "propertyCreateStart now uuid today seqNow body s = (r, s')"
  shows "properties s' = properties s \<and> hist_changes s' = hist_changes s
    \<and> hist_events s' = hist_events s \<and> audits s' = audits s \<and> pending s' = pending s"
proof (cases "createSchema body")
  case None
  with assms show ?thesis by (simp add: propertyCreateStart_def)
next
  case (Some params)
  obtain r0 s0 where g: "generatePropertyCode today seqNow s = (r0, s0)"
    by (cases "generatePropertyCode today seqNow s")
  from assms Some g have "s' = s \<or> s' = s0"
    by (auto simp: propertyCreateStart_def split: if_splits sum.splits)
  with generatePropertyCode_frame [OF g] show ?thesis by auto
qed

text \<open>
  A call that is awaited before anything else runs is the step that begins it followed
  by the step that lets it go on, the call being the last of the suspended ones.
\<close>

lemma exec_whole_create:
  "exec (PropertyCreate now uuid today seqNow body) s =
     exec (PropertyCreateResume (length (pending s)))
       (exec (PropertyCreateStart now uuid today seqNow body) s)"
proof (cases "propertyCreateStart now uuid today seqNow body s")
  case (Pair r s')
  from propertyCreateStart_frame [OF Pair] have p: "pending s' = pending s" by simp
  show ?thesis
  proof (cases r)
    case (Inl e)
    with Pair p show ?thesis
      by (simp add: propertyCreate_segments)
  next
    case (Inr q)
    have "s'\<lparr>pending := pending s\<rparr> = s'"
      using p by simp
    with Pair Inr p show ?thesis
      by (simp add: propertyCreate_segments propertyCreateResume_def add_def)
  qed
qed

lemma exec_start:
  "properties (exec (PropertyCreateStart now uuid today seqNow body) s) = properties s
   \<and> hist_changes (exec (PropertyCreateStart now uuid today seqNow body) s) = hist_changes s
   \<and> hist_events (exec (PropertyCreateStart now uuid today seqNow body) s) = hist_events s
   \<and> audits (exec (PropertyCreateStart now uuid today seqNow body) s) = audits s"
proof (cases "propertyCreateStart now uuid today seqNow body s")
  case (Pair r s')
  from propertyCreateStart_frame [OF Pair] Pair show ?thesis
    by (cases r) simp_all
qed

lemma exec_resume:
  "properties (exec (PropertyCreateResume k) s) =
     (if k < length (pending s)
      then AList.update (property_id (pending s ! k)) (pending s ! k) (properties s)
      else properties s)
   \<and> hist_changes (exec (PropertyCreateResume k) s) = hist_changes s
   \<and> hist_events (exec (PropertyCreateResume k) s) = hist_events s
   \<and> audits (exec (PropertyCreateResume k) s) = audits s"
  by (simp add: propertyCreateResume_def add_def)

lemma propertyHistoryQuery_frame:
  "properties (snd (propertyHistoryQuery tz a b uuid n params s)) = properties s
   \<and> seq_records (snd (propertyHistoryQuery tz a b uuid n params s)) = seq_records s
   \<and> seq_locks (snd (propertyHistoryQuery tz a b uuid n params s)) = seq_locks s
   \<and> hist_changes (snd (propertyHistoryQuery tz a b uuid n params s)) = hist_changes s
   \<and> hist_events (snd (propertyHistoryQuery tz a b uuid n params s)) = hist_events s"
  by (simp add: propertyHistoryQuery_def registerAuditLog_def addAudit_def Let_def
      split: option.splits)

lemma exec_properties_keys: "fst ` set (properties s) \<subseteq> fst ` set (properties (exec x s))"
proof (cases x)
  case (PropertyCreate now uuid today seqNow body)
  from propertyCreate_properties [of now uuid today seqNow body s]
  have "fst ` set (properties (exec x s)) = fst ` set (properties s)
      \<or> fst ` set (properties (exec x s)) = insert uuid (fst ` set (properties s))"
    unfolding PropertyCreate exec.simps by (metis keys_update)
  then show ?thesis by blast
next
  case (PropertyCreateStart now uuid today seqNow body)
  with exec_start [of now uuid today seqNow body s] show ?thesis by simp
next
  case (PropertyCreateResume k)
  from exec_resume [of k s]
  have "fst ` set (properties (exec x s)) = fst ` set (properties s)
      \<or> fst ` set (properties (exec x s))
          = insert (property_id (pending s ! k)) (fst ` set (properties s))"
    unfolding PropertyCreateResume by (metis keys_update)
  then show ?thesis by blast
next
  case (PropertyUpdate pid body)
  from propertyUpdate_properties [of pid body s]
  have "fst ` set (properties (exec x s)) = fst ` set (properties s)
      \<or> fst ` set (properties (exec x s)) = insert pid (fst ` set (properties s))"
    unfolding PropertyUpdate exec.simps by (metis keys_update)
  then show ?thesis by blast
next
  case (PropertyHistoryQuery tz a b uuid n params)
  with propertyHistoryQuery_frame [of tz a b uuid n params s] show ?thesis by simp
qed (simp_all add: registerLifecycleEvent_def registerPropertyChange_def addEvent_def
    addChange_def Let_def)

lemma run_properties_keys: "fst ` set (properties s) \<subseteq> fst ` set (properties (run s xs))"
proof (induction xs arbitrary: s)
  case Nil
  show ?case by simp
next
  case (Cons x xs)
  from exec_properties_keys [of s x] Cons [of "exec x s"] show ?case by auto
qed

section \<open>More sample evaluations\<close>

lemma createSchema_sampleBody2: "createSchema sampleBody2 = Some sampleParams2"
  by (simp add: createSchema_def sampleBody2_def sampleParams2_def char_defs zod_defs
      schema_defs const_defs)


lemma toLowerCase_samples2:
  "toLowerCase ''Avenida Paulista, 1000'' = ''avenida paulista, 1000''"
  "toLowerCase ''Bela Vista'' = ''bela vista''"
  by code_simp+

lemma propertyCreate_sample2:
  "propertyCreate sampleTime sampleId2 sampleTime sampleTime sampleBody2 sampleState =
     (Inr sampleProperty2, twoState)"
  by (simp add: propertyCreate_def createSchema_sampleBody2 checkDuplicateAddress_def
      existsByAddress_def count_def MAX_RECORDS_def generatePropertyCode_def
      getNextSequential_def acquireLock_def releaseLock_def dateStr_sampleTime padStart_samples
      digitsOf_small add_def sampleState_def sampleProperty_def sampleProperty2_def
      newProperty_def twoState_def sampleParams_def sampleParams2_def toLowerCase_samples
      toLowerCase_samples2 sampleId_def sampleId2_def)

lemma run_sample:
  "run initial [PropertyCreate sampleTime sampleId sampleTime sampleTime sampleBody] = sampleState"
  by (simp add: propertyCreate_sample)

lemma run_sample2:
  "run initial [PropertyCreate sampleTime sampleId sampleTime sampleTime sampleBody,
                PropertyCreate sampleTime sampleId2 sampleTime sampleTime sampleBody2] = twoState"
  by (simp add: propertyCreate_sample propertyCreate_sample2)

section \<open>Invariants of the property store\<close>

text \<open>
  In every run, whether calls overlap or not, the keys of the property store are distinct
  and every entry is filed under its own identifier.
\<close>

lemma keyed_update:
  assumes d: "distinct (map fst al)" and k: "\<forall>e \<in> set al. property_id (snd e) = fst e"
    and p: "property_id p = key"
  shows "distinct (map fst (AList.update key p al))
    \<and> (\<forall>e \<in> set (AList.update key p al). property_id (snd e) = fst e)"
proof -
  from d have "distinct (map fst (AList.update key p al))"
    by (rule distinct_update)
  moreover from d have "set (AList.update key p al) = insert (key, p) {e \<in> set al. fst e \<noteq> key}"
    by (rule set_update_distinct)
  ultimately show ?thesis
    using k p by auto
qed

lemma keyed_exec:
  assumes a: "distinct (map fst (properties s)) \<and> keyedById s"
  shows "distinct (map fst (properties (exec x s))) \<and> keyedById (exec x s)"
proof (cases x)
  case (PropertyCreate now uuid today seqNow body)
  from propertyCreate_properties [of now uuid today seqNow body s]
  show ?thesis
  proof (elim disjE exE conjE)
    assume "properties (snd (propertyCreate now uuid today seqNow body s)) = properties s"
    with a PropertyCreate show ?thesis by (simp add: keyedById_def)
  next
    fix p
    assume "property_id p = uuid"
      and "properties (snd (propertyCreate now uuid today seqNow body s))
          = AList.update uuid p (properties s)"
    with a PropertyCreate keyed_update [of "properties s" p uuid] show ?thesis
      by (simp add: keyedById_def)
  qed
next
  case (PropertyCreateStart now uuid today seqNow body)
  with a exec_start [of now uuid today seqNow body s] show ?thesis
    by (simp add: keyedById_def)
next
  case (PropertyCreateResume k)
  show ?thesis
  proof (cases "k < length (pending s)")
    case True
    with exec_resume [of k s]
    have "properties (exec (PropertyCreateResume k) s)
        = AList.update (property_id (pending s ! k)) (pending s ! k) (properties s)"
      by simp
    with a PropertyCreateResume
      keyed_update [of "properties s" "pending s ! k" "property_id (pending s ! k)"]
    show ?thesis
      by (simp add: keyedById_def)
  next
    case False
    with a PropertyCreateResume show ?thesis by simp
  qed
next
  case (PropertyUpdate pid body)
  from propertyUpdate_properties [of pid body s]
  show ?thesis
  proof (elim disjE exE conjE)
    assume "properties (snd (propertyUpdate pid body s)) = properties s"
    with a PropertyUpdate show ?thesis by (simp add: keyedById_def)
  next
    fix existing params
    assume e: "getById s pid = Some existing"
      and u: "properties (snd (propertyUpdate pid body s))
          = AList.update pid (updatedEntity existing params) (properties s)"
    from e have "(pid, existing) \<in> set (properties s)"
      by (simp add: getById_def map_of_SomeD)
    with a have "property_id existing = pid"
      by (auto simp: keyedById_def)
    then have "property_id (updatedEntity existing params) = pid"
      by (simp add: updatedEntity_def)
    with a u PropertyUpdate
      keyed_update [of "properties s" "updatedEntity existing params" pid]
    show ?thesis
      by (simp add: keyedById_def)
  qed
next
  case (PropertyHistoryQuery tz a b uuid n params)
  with a propertyHistoryQuery_frame [of tz a b uuid n params s] show ?thesis
    by (simp add: keyedById_def)
qed (use a in \<open>simp_all add: registerLifecycleEvent_def registerPropertyChange_def
      addEvent_def addChange_def Let_def keyedById_def\<close>)

lemma keyed_run:
  "distinct (map fst (properties s)) \<and> keyedById s \<Longrightarrow>
   distinct (map fst (properties (run s xs))) \<and> keyedById (run s xs)"
proof (induction xs arbitrary: s)
  case Nil
  then show ?case by simp
next
  case (Cons x xs)
  from Cons.prems have "distinct (map fst (properties (exec x s))) \<and> keyedById (exec x s)"
    by (rule keyed_exec)
  then show ?case by (simp add: Cons.IH del: exec.simps)
qed

lemma keyed_reachable:
  "distinct (map fst (properties (run initial xs))) \<and> keyedById (run initial xs)"
  by (rule keyed_run) (simp add: keyedById_def initial_def)











section \<open>Properties are never removed\<close>

text \<open>
  C8. Whatever calls follow, a property that the store holds at some point stays in the
  store under its identifier: no exported service function removes an entry.
\<close>

theorem property_never_removed:
  assumes "getById (run initial ops1) pid = Some p"
  shows "\<exists>q. getById (run initial (ops1 @ ops2)) pid = Some q
           \<and> property_id q = pid \<and> property_id p = pid"
proof -
  let ?s1 = "run initial ops1" and ?s2 = "run initial (ops1 @ ops2)"
  from assms have m1: "(pid, p) \<in> set (properties ?s1)"
    by (simp add: getById_def map_of_SomeD)
  then have "pid \<in> fst ` set (properties ?s1)"
    by (rule rev_image_eqI) simp
  with run_properties_keys [of ?s1 ops2] have "pid \<in> fst ` set (properties ?s2)"
    by (auto simp: run_append)
  then have "map_of (properties ?s2) pid \<noteq> None"
    by (simp add: map_of_eq_None_iff)
  then obtain q where q: "map_of (properties ?s2) pid = Some q"
    by blast
  then have "(pid, q) \<in> set (properties ?s2)"
    by (rule map_of_SomeD)
  with keyed_reachable [of "ops1 @ ops2"] have "property_id q = pid"
    by (auto simp: keyedById_def)
  moreover from m1 keyed_reachable [of ops1] have "property_id p = pid"
    by (auto simp: keyedById_def)
  ultimately show ?thesis
    using q by (simp add: getById_def)
qed

theorem property_never_removed_witness:
  "getById (run initial [PropertyCreate sampleTime sampleId sampleTime sampleTime sampleBody])
     sampleId = Some sampleProperty
   \<and> (\<exists>q. getById
         (run initial ([PropertyCreate sampleTime sampleId sampleTime sampleTime sampleBody]
            @ [PropertyUpdate sampleId sampleUpdateBody, PropertyList])) sampleId = Some q
        \<and> property_id q = sampleId)"
proof -
  have g: "getById (run initial [PropertyCreate sampleTime sampleId sampleTime sampleTime sampleBody])
     sampleId = Some sampleProperty"
    by (simp add: propertyCreate_sample getById_def sampleState_def)
  from property_never_removed [OF g, of "[PropertyUpdate sampleId sampleUpdateBody, PropertyList]"] g
  show ?thesis by blast
qed

section \<open>Addresses are unique\<close>








section \<open>The history and audit stores only grow\<close>

lemma registerPropertyChange_fresh:
  assumes "uuid \<notin> fst ` set (hist_changes s)"
  shows "change_id (fst (registerPropertyChange params uuid now s)) = uuid
    \<and> hist_changes (snd (registerPropertyChange params uuid now s))
        = hist_changes s @ [(uuid, fst (registerPropertyChange params uuid now s))]
    \<and> hist_events (snd (registerPropertyChange params uuid now s)) = hist_events s
    \<and> audits (snd (registerPropertyChange params uuid now s)) = audits s
    \<and> properties (snd (registerPropertyChange params uuid now s)) = properties s"
  using assms by (simp add: registerPropertyChange_def addChange_def Let_def update_fresh)

lemma registerLifecycleEvent_fresh:
  assumes "uuid \<notin> fst ` set (hist_events s)"
  shows "event_id (fst (registerLifecycleEvent params uuid now s)) = uuid
    \<and> hist_events (snd (registerLifecycleEvent params uuid now s))
        = hist_events s @ [(uuid, fst (registerLifecycleEvent params uuid now s))]
    \<and> hist_changes (snd (registerLifecycleEvent params uuid now s)) = hist_changes s
    \<and> audits (snd (registerLifecycleEvent params uuid now s)) = audits s
    \<and> properties (snd (registerLifecycleEvent params uuid now s)) = properties s"
  using assms by (simp add: registerLifecycleEvent_def addEvent_def Let_def update_fresh)

lemma propertyHistoryQuery_Inl:
  "propertyHistoryQuery tz nowStart nowEnd uuid auditNow params s = (Inl e, s') \<Longrightarrow> s' = s"
  by (auto simp: propertyHistoryQuery_def Let_def split: option.splits)

lemma propertyHistoryQuery_audits:
  assumes "uuid \<notin> fst ` set (audits s)"
  shows "\<exists>new. audits (snd (propertyHistoryQuery tz nowStart nowEnd uuid auditNow params s))
           = audits s @ new"
  using assms
  by (simp add: propertyHistoryQuery_def registerAuditLog_def addAudit_def Let_def update_fresh
      split: option.splits)

lemma propertyCreate_frame:
  "hist_changes (snd (propertyCreate now uuid today seqNow body s)) = hist_changes s
   \<and> hist_events (snd (propertyCreate now uuid today seqNow body s)) = hist_events s
   \<and> audits (snd (propertyCreate now uuid today seqNow body s)) = audits s"
proof (cases "propertyCreate now uuid today seqNow body s")
  case (Pair r s')
  show ?thesis
  proof (cases r)
    case (Inl e)
    with Pair have "s' = s" by (auto dest: propertyCreate_Inl)
    with Pair show ?thesis by simp
  next
    case (Inr p)
    with Pair obtain codigo s1 where
      g: "generatePropertyCode today seqNow s = (Inr codigo, s1)" and s': "s' = add p s1"
      by (auto elim: propertyCreate_Inr)
    from generatePropertyCode_frame [OF g] Pair s' show ?thesis
      by (simp add: add_def)
  qed
qed

lemma propertyUpdate_frame:
  "hist_changes (snd (propertyUpdate pid body s)) = hist_changes s
   \<and> hist_events (snd (propertyUpdate pid body s)) = hist_events s
   \<and> audits (snd (propertyUpdate pid body s)) = audits s
   \<and> seq_records (snd (propertyUpdate pid body s)) = seq_records s
   \<and> seq_locks (snd (propertyUpdate pid body s)) = seq_locks s"
  by (simp add: propertyUpdate_def update_def split: option.splits)

text \<open>One fresh call appends to each of the three logs.\<close>

lemma exec_logs:
  assumes "freshOp s x"
  shows "(\<exists>new. hist_changes (exec x s) = hist_changes s @ new)
    \<and> (\<exists>new. hist_events (exec x s) = hist_events s @ new)
    \<and> (\<exists>new. audits (exec x s) = audits s @ new)"
proof (cases x)
  case (PropertyCreate now uuid today seqNow body)
  with propertyCreate_frame [of now uuid today seqNow body s] show ?thesis by simp
next
  case (PropertyCreateStart now uuid today seqNow body)
  with exec_start [of now uuid today seqNow body s] show ?thesis by simp
next
  case (PropertyCreateResume k)
  with exec_resume [of k s] show ?thesis by simp
next
  case (PropertyUpdate pid body)
  with propertyUpdate_frame [of pid body s] show ?thesis by simp
next
  case (PropertyHistoryQuery tz a b uuid n params)
  with assms propertyHistoryQuery_audits [of uuid s tz a b n params]
    propertyHistoryQuery_frame [of tz a b uuid n params s]
  show ?thesis by simp
next
  case (RegisterLifecycleEvent params uuid now)
  with assms registerLifecycleEvent_fresh [of uuid s params now] show ?thesis by simp
next
  case (RegisterPropertyChange params uuid now)
  with assms registerPropertyChange_fresh [of uuid s params now] show ?thesis by simp
qed simp_all

lemma run_logs:
  assumes "freshRun s xs"
  shows "(\<exists>new. hist_changes (run s xs) = hist_changes s @ new)
    \<and> (\<exists>new. hist_events (run s xs) = hist_events s @ new)
    \<and> (\<exists>new. audits (run s xs) = audits s @ new)"
  using assms
proof (induction xs arbitrary: s)
  case Nil
  show ?case by simp
next
  case (Cons x xs)
  from Cons.prems have f: "freshOp s x" and r: "freshRun (exec x s) xs" by simp_all
  from exec_logs [OF f] Cons.IH [OF r] show ?case
    by (auto simp del: exec.simps)
qed

section \<open>Evaluation of the sample query\<close>

lemma newDate_samples:
  "newDate ''2025-02-01'' = Some 1738368000000"
  "newDate ''2025-02-28'' = Some 1740700800000"
  by (simp_all add: newDate_def isDateOnly_def char_defs readNat_def digitVal_def
      dayFromYear_def daysBeforeMonth_def inLeapYear_def msPerDay_def Let_def)

lemma isUuid_samples:
  "isUuid sampleId" "isUuid ''550e8400-e29b-41d4-a716-44665544ffff''"
  by (simp_all add: isUuid_def sampleId_def enumerate_eq_zip char_defs)

lemma historyQuerySchema_sample:
  "historyQuerySchema sampleQueryTime sampleQueryTime sampleQuery = Some sampleQueryInput"
  by (simp add: historyQuerySchema_def sampleQuery_def sampleQueryInput_def zod_defs
      isUuid_samples dateSchema_def changeTypeSchema_def PROPERTY_CHANGE_TYPES_def
      CHANGE_TYPE_TODOS_def newDate_samples dateLe_def truthy_def sampleQueryTime_def
      isDateOnly_def char_defs)

lemma historyQuerySchema_sampleUnknown:
  "historyQuerySchema sampleQueryTime sampleQueryTime sampleQueryUnknown =
     Some \<lparr>q_property_id = ''550e8400-e29b-41d4-a716-44665544ffff'', start_date = None,
            end_date = None, q_change_type = None, responsible_user = None\<rparr>"
  by (simp add: historyQuerySchema_def sampleQueryUnknown_def zod_defs isUuid_samples)

lemma toLowerCase_users:
  "toLowerCase ''USER123'' = ''user123''" "toLowerCase ''user123'' = ''user123''"
  "toLowerCase ''admin'' = ''admin''"
  by code_simp+

lemma getChangesByPropertyId_sample:
  "getChangesByPropertyId histState sampleId = [sampleChange3, sampleChange2, sampleChange1]"
  by (simp add: getChangesByPropertyId_def histState_def sampleChange1_def sampleChange2_def
      sampleChange3_def sampleChangeOther_def sampleId_def sampleId2_def)

lemma getEventsByPropertyId_sample:
  "getEventsByPropertyId histState sampleId = [sampleEvent2, sampleEvent1]"
  by (simp add: getEventsByPropertyId_def histState_def sampleEvent1_def sampleEvent2_def)

lemma propertyHistoryQuery_sample:
  "propertyHistoryQuery sampleTz sampleQueryTime sampleQueryTime ''a1'' sampleQueryTime
     sampleQuery histState
   = (Inr sampleResponse, histState\<lparr>audits := [(''a1'', sampleAudit)]\<rparr>)"
proof -
  have g: "getById histState sampleId = Some sampleProperty"
    by (simp add: getById_def histState_def twoState_def)
  have a: "audits histState = []"
    by (simp add: histState_def twoState_def)
  have s: "sort_key change_date [sampleChange3, sampleChange2, sampleChange1]
      = [sampleChange1, sampleChange2, sampleChange3]"
    by (simp add: sampleChange1_def sampleChange2_def sampleChange3_def)
  show ?thesis
    unfolding propertyHistoryQuery_def historyQuerySchema_sample
    by (simp add: g a s sampleQueryInput_def getChangesByPropertyId_sample
        getEventsByPropertyId_sample whenGiven_def newDate_samples dateGe_def dateLe_def
        setHoursEndOfDay_def sampleTz_def fixedZone_def msPerDay_def CHANGE_TYPE_TODOS_def
        toLowerCase_users sampleChange1_def sampleChange2_def sampleChange3_def
        sampleEvent1_def sampleEvent2_def sampleResponse_def sampleAudit_def
        registerAuditLog_def addAudit_def Let_def)
qed

lemma propertyHistoryQuery_sampleUnknown:
  "propertyHistoryQuery sampleTz sampleQueryTime sampleQueryTime ''a1'' sampleQueryTime
     sampleQueryUnknown histState
   = (Inl (ServiceError NOT_FOUND 404), histState)"
  unfolding propertyHistoryQuery_def historyQuerySchema_sampleUnknown
  by (simp add: getById_def histState_def twoState_def sampleId_def sampleId2_def)

section \<open>The history log is append-only\<close>

text \<open>
  C4. Along every sequence of service calls whose generated identifiers are fresh, the
  change records and the lifecycle events are only appended to: the store after the calls
  is the store before them followed by the new records. \<^verbatim>\<open>registerPropertyChange\<close> and
  \<^verbatim>\<open>registerLifecycleEvent\<close> each append exactly one record under the generated
  identifier, and \<^verbatim>\<open>propertyHistoryQuery\<close> leaves both logs as they are.
\<close>

theorem history_append_only:
  assumes "freshRun s ops"
  shows "(\<exists>new. hist_changes (run s ops) = hist_changes s @ new)
    \<and> (\<exists>new. hist_events (run s ops) = hist_events s @ new)
    \<and> (\<forall>params uuid now. uuid \<notin> fst ` set (hist_changes (run s ops)) \<longrightarrow>
          change_id (fst (registerPropertyChange params uuid now (run s ops))) = uuid
          \<and> hist_changes (snd (registerPropertyChange params uuid now (run s ops)))
              = hist_changes (run s ops)
                  @ [(uuid, fst (registerPropertyChange params uuid now (run s ops)))]
          \<and> hist_events (snd (registerPropertyChange params uuid now (run s ops)))
              = hist_events (run s ops))
    \<and> (\<forall>params uuid now. uuid \<notin> fst ` set (hist_events (run s ops)) \<longrightarrow>
          event_id (fst (registerLifecycleEvent params uuid now (run s ops))) = uuid
          \<and> hist_events (snd (registerLifecycleEvent params uuid now (run s ops)))
              = hist_events (run s ops)
                  @ [(uuid, fst (registerLifecycleEvent params uuid now (run s ops)))]
          \<and> hist_changes (snd (registerLifecycleEvent params uuid now (run s ops)))
              = hist_changes (run s ops))
    \<and> (\<forall>tz nowStart nowEnd uuid auditNow params.
          hist_changes (snd (propertyHistoryQuery tz nowStart nowEnd uuid auditNow params
             (run s ops))) = hist_changes (run s ops)
          \<and> hist_events (snd (propertyHistoryQuery tz nowStart nowEnd uuid auditNow params
             (run s ops))) = hist_events (run s ops))"
  using run_logs [OF assms] registerPropertyChange_fresh registerLifecycleEvent_fresh
    propertyHistoryQuery_frame
  by simp

theorem history_append_only_witness:
  "freshRun sampleState
     [RegisterPropertyChange sampleChangeParams ''c2'' 1739188800000,
      RegisterLifecycleEvent sampleEventParams ''e2'' 1739188800000,
      PropertyHistoryQuery sampleTz sampleQueryTime sampleQueryTime ''a1'' sampleQueryTime
        sampleQuery]
   \<and> hist_changes (run sampleState
     [RegisterPropertyChange sampleChangeParams ''c2'' 1739188800000,
      RegisterLifecycleEvent sampleEventParams ''e2'' 1739188800000,
      PropertyHistoryQuery sampleTz sampleQueryTime sampleQueryTime ''a1'' sampleQueryTime
        sampleQuery]) = hist_changes sampleState @ [(''c2'', sampleChange2)]
   \<and> ''c9'' \<notin> fst ` set (hist_changes histState)
   \<and> hist_changes (snd (registerPropertyChange sampleChangeParams ''c9'' 0 histState))
       = hist_changes histState
           @ [(''c9'', fst (registerPropertyChange sampleChangeParams ''c9'' 0 histState))]"
proof -
  let ?ops = "[RegisterPropertyChange sampleChangeParams ''c2'' 1739188800000,
      RegisterLifecycleEvent sampleEventParams ''e2'' 1739188800000,
      PropertyHistoryQuery sampleTz sampleQueryTime sampleQueryTime ''a1'' sampleQueryTime
        sampleQuery]"
  have f: "freshRun sampleState ?ops"
    by (simp add: sampleState_def registerPropertyChange_def registerLifecycleEvent_def
        addChange_def addEvent_def Let_def)
  have c: "hist_changes (run sampleState ?ops) = hist_changes sampleState @ [(''c2'', sampleChange2)]"
    by (simp add: propertyHistoryQuery_frame sampleState_def registerPropertyChange_def
        registerLifecycleEvent_def addChange_def addEvent_def Let_def sampleChange2_def
        sampleChangeParams_def)
  have n: "''c9'' \<notin> fst ` set (hist_changes histState)"
    by (simp add: histState_def)
  from history_append_only [of histState "[]"] n
  have "hist_changes (snd (registerPropertyChange sampleChangeParams ''c9'' 0 histState))
       = hist_changes histState
           @ [(''c9'', fst (registerPropertyChange sampleChangeParams ''c9'' 0 histState))]"
    by simp
  with history_append_only [OF f] f c n show ?thesis
    by simp
qed

section \<open>What is never changed and what is\<close>

lemma sameIdentity_refl: "sameIdentity p p"
  by (simp add: sameIdentity_def)

lemma sameIdentity_trans: "sameIdentity p q \<Longrightarrow> sameIdentity q r \<Longrightarrow> sameIdentity p r"
  by (simp add: sameIdentity_def)

lemma exec_identity:
  assumes f: "freshOp s x" and g: "getById s k = Some p"
  shows "\<exists>q. getById (exec x s) k = Some q \<and> sameIdentity p q"
proof (cases x)
  case (PropertyCreate now uuid today seqNow body)
  from g have "k \<in> fst ` set (properties s)"
    by (auto simp: getById_def dest: map_of_SomeD intro: rev_image_eqI)
  with f PropertyCreate have ne: "k \<noteq> uuid" by auto
  from propertyCreate_properties [of now uuid today seqNow body s] ne
  have "map_of (properties (exec x s)) k = map_of (properties s) k"
    unfolding PropertyCreate exec.simps by (auto simp: update_conv')
  with g show ?thesis
    by (auto simp: getById_def sameIdentity_refl)
next
  case (PropertyCreateStart now uuid today seqNow body)
  with g exec_start [of now uuid today seqNow body s] show ?thesis
    by (auto simp: getById_def sameIdentity_refl)
next
  case (PropertyCreateResume i)
  show ?thesis
  proof (cases "i < length (pending s)")
    case True
    from g have m: "k \<in> fst ` set (properties s)"
      by (auto simp: getById_def dest: map_of_SomeD intro: rev_image_eqI)
    from f PropertyCreateResume True
    have "property_id (pending s ! i) \<notin> fst ` set (properties s)" by simp
    with m have ne: "k \<noteq> property_id (pending s ! i)" by blast
    from exec_resume [of i s] True ne
    have "map_of (properties (exec x s)) k = map_of (properties s) k"
      unfolding PropertyCreateResume by (simp add: update_conv')
    with g show ?thesis
      by (auto simp: getById_def sameIdentity_refl)
  next
    case False
    with g PropertyCreateResume show ?thesis
      by (auto simp: sameIdentity_refl)
  qed
next
  case (PropertyUpdate pid body)
  from propertyUpdate_properties [of pid body s]
  show ?thesis
  proof (elim disjE exE conjE)
    assume "properties (snd (propertyUpdate pid body s)) = properties s"
    with g PropertyUpdate show ?thesis
      by (auto simp: getById_def sameIdentity_refl)
  next
    fix existing params
    assume e: "getById s pid = Some existing"
      and u: "properties (snd (propertyUpdate pid body s))
          = AList.update pid (updatedEntity existing params) (properties s)"
    show ?thesis
    proof (cases "k = pid")
      case True
      with e g have "existing = p" by simp
      with True u PropertyUpdate show ?thesis
        by (simp add: getById_def update_conv' sameIdentity_def updatedEntity_def)
    next
      case False
      with g u PropertyUpdate show ?thesis
        by (simp add: getById_def update_conv' sameIdentity_refl)
    qed
  qed
next
  case (PropertyHistoryQuery tz a b uuid n params)
  with g propertyHistoryQuery_frame [of tz a b uuid n params s] show ?thesis
    by (auto simp: getById_def sameIdentity_refl)
qed (use g in \<open>auto simp: getById_def sameIdentity_refl registerLifecycleEvent_def
      registerPropertyChange_def addEvent_def addChange_def Let_def\<close>)

lemma run_identity:
  assumes "freshRun s xs" and "getById s k = Some p"
  shows "\<exists>q. getById (run s xs) k = Some q \<and> sameIdentity p q"
  using assms
proof (induction xs arbitrary: s p)
  case Nil
  then show ?case by (auto simp: sameIdentity_refl)
next
  case (Cons x xs)
  from Cons.prems have f: "freshOp s x" and r: "freshRun (exec x s) xs" by simp_all
  from exec_identity [OF f Cons.prems(2)] obtain q where
    q: "getById (exec x s) k = Some q" and i: "sameIdentity p q" by blast
  from Cons.IH [OF r q] i show ?case
    by (auto dest: sameIdentity_trans simp del: exec.simps)
qed

text \<open>
  C5, as the code has it. Along every sequence of service calls whose generated
  identifiers are fresh, change records, lifecycle events and audit records are only
  appended, and every stored property stays in the store under its identifier with its
  \<^verbatim>\<open>property_id\<close>, \<^verbatim>\<open>codigo_propriedade\<close>, \<^verbatim>\<open>data_cadastro\<close> and \<^verbatim>\<open>usuario_cadastro\<close>.
  The other fields of a property are what \<^verbatim>\<open>propertyUpdate\<close> replaces.
\<close>

theorem entities_persist:
  assumes "freshRun s ops"
  shows "(\<exists>new. hist_changes (run s ops) = hist_changes s @ new)
    \<and> (\<exists>new. hist_events (run s ops) = hist_events s @ new)
    \<and> (\<exists>new. audits (run s ops) = audits s @ new)
    \<and> (\<forall>k p. getById s k = Some p \<longrightarrow>
          (\<exists>q. getById (run s ops) k = Some q \<and> sameIdentity p q))"
  using run_logs [OF assms] run_identity [OF assms] by blast

theorem entities_persist_witness:
  "freshRun sampleState
     [PropertyUpdate sampleId sampleUpdateBody,
      RegisterPropertyChange sampleChangeParams ''c2'' 1739188800000]
   \<and> getById sampleState sampleId = Some sampleProperty
   \<and> (\<exists>q. getById (run sampleState
             [PropertyUpdate sampleId sampleUpdateBody,
              RegisterPropertyChange sampleChangeParams ''c2'' 1739188800000]) sampleId = Some q
          \<and> sameIdentity sampleProperty q)"
proof -
  let ?ops = "[PropertyUpdate sampleId sampleUpdateBody,
      RegisterPropertyChange sampleChangeParams ''c2'' 1739188800000]"
  have "hist_changes sampleState = []"
    by (simp add: sampleState_def)
  then have f: "freshRun sampleState ?ops"
    by (simp add: propertyUpdate_frame)
  have g: "getById sampleState sampleId = Some sampleProperty"
    by (simp add: getById_def sampleState_def)
  from entities_persist [OF f] f g show ?thesis by blast
qed

text \<open>The update of the sample property replaces the stored entity.\<close>

theorem property_mutated_counterexample:
  "getById (run initial [PropertyCreate sampleTime sampleId sampleTime sampleTime sampleBody])
     sampleId = Some sampleProperty
   \<and> freshRun initial [PropertyCreate sampleTime sampleId sampleTime sampleTime sampleBody,
        PropertyUpdate sampleId sampleUpdateBody]
   \<and> sampleProperty \<notin> set (getAll (run initial
       [PropertyCreate sampleTime sampleId sampleTime sampleTime sampleBody,
        PropertyUpdate sampleId sampleUpdateBody]))
   \<and> status sampleProperty \<noteq> status (updatedEntity sampleProperty sampleUpdateParams)"
proof -
  have r1: "run initial [PropertyCreate sampleTime sampleId sampleTime sampleTime sampleBody]
      = sampleState"
    by (rule run_sample)
  have r2: "run initial [PropertyCreate sampleTime sampleId sampleTime sampleTime sampleBody,
        PropertyUpdate sampleId sampleUpdateBody]
      = sampleState\<lparr>properties := [(sampleId, updatedEntity sampleProperty sampleUpdateParams)]\<rparr>"
    by (simp only: run.simps exec.simps propertyCreate_sample propertyUpdate_sample snd_conv)
  have f: "freshRun initial [PropertyCreate sampleTime sampleId sampleTime sampleTime sampleBody,
        PropertyUpdate sampleId sampleUpdateBody]"
    by (simp add: initial_def)
  have ne: "status sampleProperty \<noteq> status (updatedEntity sampleProperty sampleUpdateParams)"
    by (simp add: sampleProperty_def newProperty_def updatedEntity_def sampleUpdateParams_def
        DEFAULT_STATUS_def)
  then have "sampleProperty \<noteq> updatedEntity sampleProperty sampleUpdateParams"
    by auto
  then have "sampleProperty \<notin> set (getAll
      (sampleState\<lparr>properties := [(sampleId, updatedEntity sampleProperty sampleUpdateParams)]\<rparr>))"
    by (simp add: getAll_def)
  moreover have "getById sampleState sampleId = Some sampleProperty"
    by (simp add: getById_def sampleState_def)
  ultimately show ?thesis
    using f ne unfolding r1 r2 by simp
qed

section \<open>The audit record of a history query\<close>

text \<open>
  C3, as the code has it. A history query that succeeds, with an audit identifier that is
  fresh, appends exactly one audit record: under the user \<^verbatim>\<open>system\<close>, with the consulted
  property, the validated parameters as filters, the number of changes plus events
  returned, and no export. A history query that ends in an error appends none.
\<close>

theorem history_query_audit:
  "(\<forall>response s'.
      propertyHistoryQuery tz nowStart nowEnd uuid auditNow params s = (Inr response, s')
      \<and> uuid \<notin> fst ` set (audits s) \<longrightarrow>
      (\<exists>q. historyQuerySchema nowStart nowEnd params = Some q
        \<and> audits s' = audits s @
            [(uuid, \<lparr>audit_id = uuid, user_id = ''system'',
                     consulted_property_id = q_property_id q,
                     consultation_timestamp = auditNow, applied_filters = q,
                     records_returned =
                       length (changes response) + length (lifecycle_events response),
                     exported = False, export_format = None\<rparr>)]))
   \<and> (\<forall>e s'. propertyHistoryQuery tz nowStart nowEnd uuid auditNow params s = (Inl e, s')
        \<longrightarrow> audits s' = audits s)"
proof (intro conjI allI impI)
  fix response s'
  assume "propertyHistoryQuery tz nowStart nowEnd uuid auditNow params s = (Inr response, s')
      \<and> uuid \<notin> fst ` set (audits s)"
  then show "\<exists>q. historyQuerySchema nowStart nowEnd params = Some q
        \<and> audits s' = audits s @
            [(uuid, \<lparr>audit_id = uuid, user_id = ''system'',
                     consulted_property_id = q_property_id q,
                     consultation_timestamp = auditNow, applied_filters = q,
                     records_returned =
                       length (changes response) + length (lifecycle_events response),
                     exported = False, export_format = None\<rparr>)]"
    by (auto simp: propertyHistoryQuery_def registerAuditLog_def addAudit_def Let_def
        update_fresh split: option.splits)
next
  fix e s'
  assume "propertyHistoryQuery tz nowStart nowEnd uuid auditNow params s = (Inl e, s')"
  then show "audits s' = audits s"
    by (auto dest: propertyHistoryQuery_Inl)
qed

theorem history_query_audit_witness:
  "propertyHistoryQuery sampleTz sampleQueryTime sampleQueryTime ''a1'' sampleQueryTime
     sampleQuery histState = (Inr sampleResponse, histState\<lparr>audits := [(''a1'', sampleAudit)]\<rparr>)
   \<and> ''a1'' \<notin> fst ` set (audits histState)
   \<and> historyQuerySchema sampleQueryTime sampleQueryTime sampleQuery = Some sampleQueryInput
   \<and> audits (histState\<lparr>audits := [(''a1'', sampleAudit)]\<rparr>)
       = audits histState @ [(''a1'', sampleAudit)]
   \<and> records_returned sampleAudit
       = length (changes sampleResponse) + length (lifecycle_events sampleResponse)
   \<and> propertyHistoryQuery sampleTz sampleQueryTime sampleQueryTime ''a1'' sampleQueryTime
       sampleQueryUnknown histState = (Inl (ServiceError NOT_FOUND 404), histState)"
proof -
  have f: "''a1'' \<notin> fst ` set (audits histState)"
    by (simp add: histState_def twoState_def)
  have a: "audits histState = []"
    by (simp add: histState_def twoState_def)
  note t = history_query_audit [of sampleTz sampleQueryTime sampleQueryTime "''a1''"
      sampleQueryTime sampleQuery histState]
  from t propertyHistoryQuery_sample f
  have "\<exists>q. historyQuerySchema sampleQueryTime sampleQueryTime sampleQuery = Some q
        \<and> audits (histState\<lparr>audits := [(''a1'', sampleAudit)]\<rparr>) = audits histState @
            [(''a1'', \<lparr>audit_id = ''a1'', user_id = ''system'',
                     consulted_property_id = q_property_id q,
                     consultation_timestamp = sampleQueryTime, applied_filters = q,
                     records_returned =
                       length (changes sampleResponse) + length (lifecycle_events sampleResponse),
                     exported = False, export_format = None\<rparr>)]"
    by blast
  then have "audits (histState\<lparr>audits := [(''a1'', sampleAudit)]\<rparr>)
       = audits histState @ [(''a1'', sampleAudit)]"
    by (simp add: a)
  with propertyHistoryQuery_sample f historyQuerySchema_sample propertyHistoryQuery_sampleUnknown
  show ?thesis
    by (simp add: sampleAudit_def sampleResponse_def)
qed

text \<open>A query for a property that does not exist is answered with an error and not logged.\<close>

theorem history_query_audit_counterexample:
  "fst (propertyHistoryQuery sampleTz sampleQueryTime sampleQueryTime ''a1'' sampleQueryTime
     sampleQueryUnknown histState) = Inl (ServiceError NOT_FOUND 404)
   \<and> audits (snd (propertyHistoryQuery sampleTz sampleQueryTime sampleQueryTime ''a1''
       sampleQueryTime sampleQueryUnknown histState)) = audits histState"
  by (simp add: propertyHistoryQuery_sampleUnknown)

section \<open>What a validated history query holds\<close>






section \<open>The filters of a history query\<close>






lemma propertyHistoryQuery_Inr:
  assumes "propertyHistoryQuery tz nowStart nowEnd uuid auditNow params s = (Inr response, s')"
  obtains q p where
    "historyQuerySchema nowStart nowEnd params = Some q"
    "getById s (q_property_id q) = Some p"
    "changes response =
       whenGiven (responsible_user q)
         (\<lambda>ru. filter (\<lambda>c. toLowerCase (user_responsible c) = toLowerCase ru))
         (whenGiven (q_change_type q)
            (\<lambda>ct xs. if ct \<noteq> CHANGE_TYPE_TODOS then filter (\<lambda>c. change_type c = ct) xs else xs)
            (whenGiven (end_date q)
               (\<lambda>ed. filter (\<lambda>c. dateLe (Some (change_date c)) (setHoursEndOfDay tz (newDate ed))))
               (whenGiven (start_date q)
                  (\<lambda>sd. filter (\<lambda>c. dateGe (Some (change_date c)) (newDate sd)))
                  (getChangesByPropertyId s (q_property_id q)))))"
    "lifecycle_events response =
       whenGiven (end_date q)
         (\<lambda>ed. filter (\<lambda>e. dateLe (Some (event_date e)) (setHoursEndOfDay tz (newDate ed))))
         (whenGiven (start_date q)
            (\<lambda>sd. filter (\<lambda>e. dateGe (Some (event_date e)) (newDate sd)))
            (getEventsByPropertyId s (q_property_id q)))"
    "total_changes (summary response) = length (changes response)"
    "total_events (summary response) = length (lifecycle_events response)"
    "first_change_date (summary response) =
       (case sort_key change_date (getChangesByPropertyId s (q_property_id q)) of
          [] \<Rightarrow> None | c # _ \<Rightarrow> Some (change_date c))"
    "last_change_date (summary response) =
       (if sort_key change_date (getChangesByPropertyId s (q_property_id q)) = [] then None
        else Some (change_date (last (sort_key change_date
               (getChangesByPropertyId s (q_property_id q))))))"
  using assms unfolding propertyHistoryQuery_def Let_def
  by (auto split: option.splits)

section \<open>The answer of a history query\<close>













section \<open>The summary dates\<close>

lemma sorted_hd_le: "sorted zs \<Longrightarrow> z \<in> set zs \<Longrightarrow> hd zs \<le> (z::int)"
  by (cases zs) auto

lemma sorted_le_last: "sorted zs \<Longrightarrow> z \<in> set zs \<Longrightarrow> (z::int) \<le> last zs"
  by (induction zs) (auto split: if_splits)

lemma sort_key_Nil_iff: "sort_key f xs = [] \<longleftrightarrow> xs = []"
proof -
  have "sort_key f xs = [] \<longleftrightarrow> length (sort_key f xs) = 0"
    by (simp only: length_0_conv)
  then show ?thesis by simp
qed

lemma sort_key_hd_Min:
  fixes f :: "'a \<Rightarrow> int"
  assumes "xs \<noteq> []"
  shows "f (hd (sort_key f xs)) = Min (f ` set xs)"
proof -
  let ?ys = "sort_key f xs"
  from assms have ne: "?ys \<noteq> []"
    by (simp add: sort_key_Nil_iff)
  have s: "sorted (map f ?ys)" by (rule sorted_sort_key)
  have h: "hd (map f ?ys) = f (hd ?ys)"
    using ne by (simp add: hd_map)
  have "Min (f ` set xs) = f (hd ?ys)"
  proof (rule Min_eqI)
    show "finite (f ` set xs)" by simp
    show "f (hd ?ys) \<in> f ` set xs"
      using ne by (metis hd_in_set imageI set_sort)
    fix y assume "y \<in> f ` set xs"
    then have "y \<in> set (map f ?ys)" by simp
    with s have "hd (map f ?ys) \<le> y" by (rule sorted_hd_le)
    with h show "f (hd ?ys) \<le> y" by simp
  qed
  then show ?thesis by simp
qed

lemma sort_key_last_Max:
  fixes f :: "'a \<Rightarrow> int"
  assumes "xs \<noteq> []"
  shows "f (last (sort_key f xs)) = Max (f ` set xs)"
proof -
  let ?ys = "sort_key f xs"
  from assms have ne: "?ys \<noteq> []"
    by (simp add: sort_key_Nil_iff)
  have s: "sorted (map f ?ys)" by (rule sorted_sort_key)
  have l: "last (map f ?ys) = f (last ?ys)"
    using ne by (simp add: last_map)
  have "Max (f ` set xs) = f (last ?ys)"
  proof (rule Max_eqI)
    show "finite (f ` set xs)" by simp
    show "f (last ?ys) \<in> f ` set xs"
      using ne by (metis last_in_set imageI set_sort)
    fix y assume "y \<in> f ` set xs"
    then have "y \<in> set (map f ?ys)" by simp
    with s have "y \<le> last (map f ?ys)" by (rule sorted_le_last)
    with l show "y \<le> f (last ?ys)" by simp
  qed
  then show ?thesis by simp
qed

lemma getChangesByPropertyId_set:
  "set (getChangesByPropertyId s pid) = set (changesOf s pid)"
  "getChangesByPropertyId s pid = [] \<longleftrightarrow> changesOf s pid = []"
  by (simp_all add: getChangesByPropertyId_def changesOf_def sort_key_Nil_iff)

text \<open>
  C9. The first and the last change date of the summary are the earliest and the latest
  \<^verbatim>\<open>change_date\<close> among all change records of the queried property, whatever the
  filters of the query and whatever the list of changes returned; they are null exactly
  when the property has no change record.
\<close>

theorem summary_dates_ignore_filters:
  assumes "propertyHistoryQuery tz nowStart nowEnd uuid auditNow params s = (Inr response, s')"
  shows "\<exists>q. historyQuerySchema nowStart nowEnd params = Some q
    \<and> first_change_date (summary response) =
        (if changesOf s (q_property_id q) = [] then None
         else Some (Min (change_date ` set (changesOf s (q_property_id q)))))
    \<and> last_change_date (summary response) =
        (if changesOf s (q_property_id q) = [] then None
         else Some (Max (change_date ` set (changesOf s (q_property_id q)))))"
proof -
  from assms obtain q where
    q: "historyQuerySchema nowStart nowEnd params = Some q"
    and f: "first_change_date (summary response) =
       (case sort_key change_date (getChangesByPropertyId s (q_property_id q)) of
          [] \<Rightarrow> None | c # _ \<Rightarrow> Some (change_date c))"
    and l: "last_change_date (summary response) =
       (if sort_key change_date (getChangesByPropertyId s (q_property_id q)) = [] then None
        else Some (change_date (last (sort_key change_date
               (getChangesByPropertyId s (q_property_id q))))))"
    by (rule propertyHistoryQuery_Inr)
  let ?all = "getChangesByPropertyId s (q_property_id q)"
  have e: "sort_key change_date ?all = [] \<longleftrightarrow> changesOf s (q_property_id q) = []"
    by (simp add: sort_key_Nil_iff getChangesByPropertyId_set)
  have f': "first_change_date (summary response) =
      (if sort_key change_date ?all = [] then None
       else Some (change_date (hd (sort_key change_date ?all))))"
    unfolding f by (cases "sort_key change_date ?all") simp_all
  have "first_change_date (summary response) =
        (if changesOf s (q_property_id q) = [] then None
         else Some (Min (change_date ` set (changesOf s (q_property_id q)))))"
    unfolding f' e
    by (simp add: sort_key_hd_Min getChangesByPropertyId_set)
  moreover have "last_change_date (summary response) =
        (if changesOf s (q_property_id q) = [] then None
         else Some (Max (change_date ` set (changesOf s (q_property_id q)))))"
    unfolding l e
    by (simp add: sort_key_last_Max getChangesByPropertyId_set)
  ultimately show ?thesis
    using q by blast
qed

lemma propertyHistoryQuery_sampleNobody:
  "propertyHistoryQuery sampleTz sampleQueryTime sampleQueryTime ''a1'' sampleQueryTime
     sampleQueryNobody histState
   = (Inr \<lparr>changes = [], lifecycle_events = [sampleEvent2, sampleEvent1],
           summary = \<lparr>total_changes = 0, total_events = 2,
                       first_change_date = Some 1738022400123,
                       last_change_date = Some 1741132800000\<rparr>\<rparr>,
      histState\<lparr>audits :=
        [(''a1'', \<lparr>audit_id = ''a1'', user_id = ''system'', consulted_property_id = sampleId,
                   consultation_timestamp = sampleQueryTime,
                   applied_filters = \<lparr>q_property_id = sampleId, start_date = None,
                     end_date = None, q_change_type = None, responsible_user = Some ''nobody''\<rparr>,
                   records_returned = 2, exported = False, export_format = None\<rparr>)]\<rparr>)"
proof -
  have v: "historyQuerySchema sampleQueryTime sampleQueryTime sampleQueryNobody =
      Some \<lparr>q_property_id = sampleId, start_date = None, end_date = None, q_change_type = None,
             responsible_user = Some ''nobody''\<rparr>"
    by (simp add: historyQuerySchema_def sampleQueryNobody_def zod_defs isUuid_samples)
  have g: "getById histState sampleId = Some sampleProperty"
    by (simp add: getById_def histState_def twoState_def)
  have a: "audits histState = []"
    by (simp add: histState_def twoState_def)
  have s: "sort_key change_date [sampleChange3, sampleChange2, sampleChange1]
      = [sampleChange1, sampleChange2, sampleChange3]"
    by (simp add: sampleChange1_def sampleChange2_def sampleChange3_def)
  have n: "toLowerCase ''nobody'' = ''nobody''"
    by code_simp
  show ?thesis
    unfolding propertyHistoryQuery_def v
    by (simp add: g a s n getChangesByPropertyId_sample getEventsByPropertyId_sample
        whenGiven_def toLowerCase_users sampleChange1_def sampleChange2_def sampleChange3_def
        registerAuditLog_def addAudit_def Let_def)
qed

theorem summary_dates_ignore_filters_witness:
  "fst (propertyHistoryQuery sampleTz sampleQueryTime sampleQueryTime ''a1'' sampleQueryTime
     sampleQueryNobody histState)
   = Inr \<lparr>changes = [], lifecycle_events = [sampleEvent2, sampleEvent1],
           summary = \<lparr>total_changes = 0, total_events = 2,
                       first_change_date = Some 1738022400123,
                       last_change_date = Some 1741132800000\<rparr>\<rparr>
   \<and> changesOf histState sampleId = [sampleChange1, sampleChange2, sampleChange3]
   \<and> Min (change_date ` set (changesOf histState sampleId)) = 1738022400123
   \<and> Max (change_date ` set (changesOf histState sampleId)) = 1741132800000"
proof -
  have c: "changesOf histState sampleId = [sampleChange1, sampleChange2, sampleChange3]"
    by (simp add: changesOf_def histState_def sampleChange1_def sampleChange2_def
        sampleChange3_def sampleChangeOther_def sampleId_def sampleId2_def)
  have v: "historyQuerySchema sampleQueryTime sampleQueryTime sampleQueryNobody =
      Some \<lparr>q_property_id = sampleId, start_date = None, end_date = None, q_change_type = None,
             responsible_user = Some ''nobody''\<rparr>"
    by (simp add: historyQuerySchema_def sampleQueryNobody_def zod_defs isUuid_samples)
  from summary_dates_ignore_filters [OF propertyHistoryQuery_sampleNobody]
  have "Some (1738022400123::int) = Some (Min (change_date ` set (changesOf histState sampleId)))
    \<and> Some (1741132800000::int) = Some (Max (change_date ` set (changesOf histState sampleId)))"
    unfolding v by (simp add: c)
  with c show ?thesis
    by (simp add: propertyHistoryQuery_sampleNobody)
qed

section \<open>Sequence numbers\<close>

lemma getNextSequential_free:
  assumes "seq_locks s = []"
  shows "\<exists>s'. getNextSequential d now s = (Inr (Suc (getCurrentSequential s d)), s')
    \<and> seq_locks s' = []
    \<and> (\<forall>d'. getCurrentSequential s' d'
          = (if d' = d then Suc (getCurrentSequential s d) else getCurrentSequential s d'))"
  using assms
  by (auto simp: getNextSequential_def acquireLock_def releaseLock_def getCurrentSequential_def
      Let_def update_conv' split: option.splits)

lemma generatePropertyCode_free:
  assumes "seq_locks s = []"
  shows "\<exists>s'. generatePropertyCode today seqNow s
      = (Inr (''PROP-'' @ dateStr today @ ''-''
              @ padStart 3 (CHR ''0'') (digitsOf (Suc (getCurrentSequential s (dateStr today))))), s')
    \<and> seq_locks s' = []
    \<and> (\<forall>d'. getCurrentSequential s' d'
          = (if d' = dateStr today then Suc (getCurrentSequential s (dateStr today))
             else getCurrentSequential s d'))"
proof -
  from getNextSequential_free [OF assms, of "dateStr today" seqNow] obtain s' where
    "getNextSequential (dateStr today) seqNow s
       = (Inr (Suc (getCurrentSequential s (dateStr today))), s')"
    and "seq_locks s' = []"
    and "\<forall>d'. getCurrentSequential s' d'
          = (if d' = dateStr today then Suc (getCurrentSequential s (dateStr today))
             else getCurrentSequential s d')"
    by blast
  then show ?thesis
    by (simp add: generatePropertyCode_def)
qed

section \<open>A thousand properties in one day\<close>

lemma createSchema_bulkBody:
  assumes "n < 10000"
  shows "createSchema (bulkBody n) = Some (bulkParams n)"
proof -
  from assms have "n div 100 < 100" by simp
  then have "Suc (n div 100) \<le> 100" by simp
  moreover have "Suc (n mod 100) \<le> 100"
    by (simp add: Suc_leI)
  ultimately show ?thesis
    by (simp add: createSchema_def bulkBody_def bulkParams_def char_defs zod_defs
        schema_defs const_defs)
qed

lemma update_length: "length (AList.update k v al) \<le> Suc (length al)"
  by (induction al) auto

lemma update_set_subset: "set (AList.update k v al) \<subseteq> insert (k, v) (set al)"
  by (induction al) auto

lemma toLowerCase_length: "length (toLowerCase s) = length s"
  by (simp add: toLowerCase_def)

lemma readNat_digitsOf: "readNat (digitsOf n) = n"
proof (induction n rule: digitsOf.induct)
  case (1 n)
  have d: "digitVal (char_of (48 + k)) = k" if "k < 10" for k :: nat
    using that by (simp add: digitVal_def code_def)
  show ?case
  proof (cases "n < 10")
    case True
    with d [of n] show ?thesis
      by (subst digitsOf.simps) (simp add: readNat_def)
  next
    case False
    with "1.IH" have "readNat (digitsOf (n div 10)) = n div 10" by simp
    with False d [of "n mod 10"] show ?thesis
      by (subst digitsOf.simps) (simp add: readNat_def)
  qed
qed

lemma digitsOf_inj: "digitsOf m = digitsOf n \<Longrightarrow> m = n"
  by (metis readNat_digitsOf)

lemma bulk_step:
  assumes l: "seq_locks s = []"
    and c: "getCurrentSequential s ''20250128'' = n"
    and len: "length (properties s) \<le> n"
    and addr: "\<forall>p \<in> set (getAll s). \<exists>j<n. bairro p = replicate (Suc (j mod 100)) (CHR ''a'')
                 \<and> cidade p = replicate (Suc (j div 100)) (CHR ''b'')"
    and n: "n < 10000"
  shows "\<exists>p s'. propertyCreate sampleTime uuid sampleTime sampleTime (bulkBody n) s = (Inr p, s')
    \<and> codigo_propriedade p = ''PROP-20250128-'' @ padStart 3 (CHR ''0'') (digitsOf (Suc n))
    \<and> endereco_completo p = ''Rua das Flores, 123''
    \<and> properties s' = AList.update uuid p (properties s)
    \<and> seq_locks s' = []
    \<and> getCurrentSequential s' ''20250128'' = Suc n
    \<and> length (properties s') \<le> Suc n
    \<and> (\<forall>p \<in> set (getAll s'). \<exists>j<Suc n. bairro p = replicate (Suc (j mod 100)) (CHR ''a'')
          \<and> cidade p = replicate (Suc (j div 100)) (CHR ''b''))"
proof -
  have nodup: "\<not> existsByAddress s (c_endereco_completo (bulkParams n)) (c_bairro (bulkParams n))
      (c_cep (bulkParams n)) (c_cidade (bulkParams n)) (c_estado (bulkParams n))"
  proof
    assume "existsByAddress s (c_endereco_completo (bulkParams n)) (c_bairro (bulkParams n))
      (c_cep (bulkParams n)) (c_cidade (bulkParams n)) (c_estado (bulkParams n))"
    then obtain p where p: "p \<in> set (getAll s)"
      and b: "toLowerCase (bairro p) = toLowerCase (replicate (Suc (n mod 100)) (CHR ''a''))"
      and ci: "toLowerCase (cidade p) = toLowerCase (replicate (Suc (n div 100)) (CHR ''b''))"
      by (auto simp: existsByAddress_def list_ex_iff bulkParams_def getAll_def)
    from addr p obtain j where j: "j < n"
      and bj: "bairro p = replicate (Suc (j mod 100)) (CHR ''a'')"
      and cj: "cidade p = replicate (Suc (j div 100)) (CHR ''b'')"
      by blast
    from b have "length (toLowerCase (bairro p))
        = length (toLowerCase (replicate (Suc (n mod 100)) (CHR ''a'')))"
      by simp
    then have m: "j mod 100 = n mod 100"
      by (simp add: toLowerCase_length bj)
    from ci have "length (toLowerCase (cidade p))
        = length (toLowerCase (replicate (Suc (n div 100)) (CHR ''b'')))"
      by simp
    then have d: "j div 100 = n div 100"
      by (simp add: toLowerCase_length cj)
    from m d have "j = n"
      by (metis div_mult_mod_eq)
    with j show False by simp
  qed
  from len n have cnt: "\<not> MAX_RECORDS \<le> count s"
    by (simp add: MAX_RECORDS_def count_def)
  from generatePropertyCode_free [OF l, of sampleTime sampleTime] c obtain s1 where
    g: "generatePropertyCode sampleTime sampleTime s
      = (Inr (''PROP-20250128-'' @ padStart 3 (CHR ''0'') (digitsOf (Suc n))), s1)"
    and l1: "seq_locks s1 = []"
    and c1: "getCurrentSequential s1 ''20250128'' = Suc n"
    by (auto simp: dateStr_sampleTime)
  from generatePropertyCode_frame [OF g] have p1: "properties s1 = properties s"
    by simp
  define np where "np = newProperty uuid
      (''PROP-20250128-'' @ padStart 3 (CHR ''0'') (digitsOf (Suc n))) (bulkParams n) sampleTime"
  have r: "propertyCreate sampleTime uuid sampleTime sampleTime (bulkBody n) s
      = (Inr np, add np s1)"
    by (simp add: propertyCreate_def createSchema_bulkBody [OF n] checkDuplicateAddress_def
        nodup cnt g np_def)
  have np: "property_id np = uuid"
    "codigo_propriedade np = ''PROP-20250128-'' @ padStart 3 (CHR ''0'') (digitsOf (Suc n))"
    "bairro np = replicate (Suc (n mod 100)) (CHR ''a'')"
    "cidade np = replicate (Suc (n div 100)) (CHR ''b'')"
    "endereco_completo np = ''Rua das Flores, 123''"
    by (simp_all add: np_def newProperty_def bulkParams_def)
  have props: "properties (add np s1) = AList.update uuid np (properties s)"
    by (simp add: add_def p1 np(1))
  have "length (properties (add np s1)) \<le> Suc n"
    unfolding props using update_length [of uuid np "properties s"] len by simp
  moreover have "\<forall>p \<in> set (getAll (add np s1)). \<exists>j<Suc n.
      bairro p = replicate (Suc (j mod 100)) (CHR ''a'')
      \<and> cidade p = replicate (Suc (j div 100)) (CHR ''b'')"
  proof
    fix p assume "p \<in> set (getAll (add np s1))"
    then have "p \<in> snd ` set (AList.update uuid np (properties s))"
      by (simp only: getAll_def props set_map)
    then obtain k where "(k, p) \<in> set (AList.update uuid np (properties s))"
      by auto
    with update_set_subset [of uuid np "properties s"]
    have "(k, p) = (uuid, np) \<or> (k, p) \<in> set (properties s)"
      by blast
    then have "p = np \<or> p \<in> set (getAll s)"
      by (auto simp: getAll_def intro: rev_image_eqI)
    then show "\<exists>j<Suc n. bairro p = replicate (Suc (j mod 100)) (CHR ''a'')
      \<and> cidade p = replicate (Suc (j div 100)) (CHR ''b'')"
    proof
      assume "p = np"
      with np(3,4) show ?thesis by blast
    next
      assume "p \<in> set (getAll s)"
      with addr obtain j where "j < n" "bairro p = replicate (Suc (j mod 100)) (CHR ''a'')"
        "cidade p = replicate (Suc (j div 100)) (CHR ''b'')" by blast
      then show ?thesis
        by (intro exI [of _ j]) simp
    qed
  qed
  moreover have "seq_locks (add np s1) = []"
    "getCurrentSequential (add np s1) ''20250128'' = Suc n"
    using l1 c1 by (simp_all add: add_def getCurrentSequential_def)
  ultimately show ?thesis
    using r np(2,5) props by blast
qed

lemma bulkOps_Suc:
  "bulkOps (Suc n)
     = bulkOps n @ [PropertyCreate sampleTime (digitsOf n) sampleTime sampleTime (bulkBody n)]"
  by (simp add: bulkOps_def)

lemma bulk_run:
  assumes "n \<le> 10000"
  shows "seq_locks (run initial (bulkOps n)) = []
    \<and> getCurrentSequential (run initial (bulkOps n)) ''20250128'' = n
    \<and> length (properties (run initial (bulkOps n))) \<le> n
    \<and> (\<forall>p \<in> set (getAll (run initial (bulkOps n))).
          \<exists>j<n. bairro p = replicate (Suc (j mod 100)) (CHR ''a'')
            \<and> cidade p = replicate (Suc (j div 100)) (CHR ''b''))
    \<and> map fst (properties (run initial (bulkOps n))) = map digitsOf [0..<n]
    \<and> (\<forall>p \<in> set (getAll (run initial (bulkOps n))).
          endereco_completo p = ''Rua das Flores, 123'')"
  using assms
proof (induction n)
  case 0
  show ?case
    by (simp add: bulkOps_def initial_def getCurrentSequential_def getAll_def)
next
  case (Suc n)
  let ?s = "run initial (bulkOps n)"
  from Suc have inv: "seq_locks ?s = []" "getCurrentSequential ?s ''20250128'' = n"
    "length (properties ?s) \<le> n"
    "\<forall>p \<in> set (getAll ?s). \<exists>j<n. bairro p = replicate (Suc (j mod 100)) (CHR ''a'')
        \<and> cidade p = replicate (Suc (j div 100)) (CHR ''b'')"
    and keys: "map fst (properties ?s) = map digitsOf [0..<n]"
    and ends: "\<forall>p \<in> set (getAll ?s). endereco_completo p = ''Rua das Flores, 123''"
    and n: "n < 10000"
    by simp_all
  from bulk_step [OF inv n, of "digitsOf n"] obtain p s' where
    r: "propertyCreate sampleTime (digitsOf n) sampleTime sampleTime (bulkBody n) ?s = (Inr p, s')"
    and s': "seq_locks s' = []" "getCurrentSequential s' ''20250128'' = Suc n"
      "length (properties s') \<le> Suc n"
      "\<forall>p \<in> set (getAll s'). \<exists>j<Suc n. bairro p = replicate (Suc (j mod 100)) (CHR ''a'')
          \<and> cidade p = replicate (Suc (j div 100)) (CHR ''b'')"
    and e: "endereco_completo p = ''Rua das Flores, 123''"
    and u: "properties s' = AList.update (digitsOf n) p (properties ?s)"
    by blast
  have "fst ` set (properties ?s) = digitsOf ` {0..<n}"
    using keys by (metis list.set_map set_upt)
  then have "digitsOf n \<notin> fst ` set (properties ?s)"
    by (auto dest: digitsOf_inj)
  then have app: "properties s' = properties ?s @ [(digitsOf n, p)]"
    unfolding u by (rule update_fresh)
  have k': "map fst (properties s') = map digitsOf [0..<Suc n]"
    by (simp add: app keys)
  have e': "\<forall>p \<in> set (getAll s'). endereco_completo p = ''Rua das Flores, 123''"
    using ends e by (auto simp: getAll_def app)
  have "run initial (bulkOps (Suc n)) = s'"
    by (simp add: bulkOps_Suc run_append r)
  with s' k' e' show ?case by simp
qed

text \<open>
  C6. A property code is to be \<^verbatim>\<open>PROP-YYYYMMDD-NNN\<close> with a number of three digits, and
  the comments of \<^verbatim>\<open>generatePropertyCode\<close> say the same (\<^verbatim>\<open>PROP-YYYYMMDD-XXX\<close>). The
  function pads the number of the day to three digits and does not keep it below a
  thousand: after 999 properties have been created on 2025-01-28, the next request of
  that day succeeds and its property gets the code \<^verbatim>\<open>PROP-20250128-1000\<close>, whose number
  has four digits.
\<close>

theorem property_code_thousandth:
  "length (properties (run initial (bulkOps 999))) = 999
   \<and> map_sum id codigo_propriedade
        (fst (propertyCreate sampleTime sampleId sampleTime sampleTime (bulkBody 999)
           (run initial (bulkOps 999))))
      = Inr ''PROP-20250128-1000''"
proof -
  have b: "(999::nat) \<le> 10000" by simp
  note inv = bulk_run [OF b]
  from inv have i1: "seq_locks (run initial (bulkOps 999)) = []"
    and i2: "getCurrentSequential (run initial (bulkOps 999)) ''20250128'' = 999"
    and i3: "length (properties (run initial (bulkOps 999))) \<le> 999"
    and i4: "\<forall>p \<in> set (getAll (run initial (bulkOps 999))).
          \<exists>j<999. bairro p = replicate (Suc (j mod 100)) (CHR ''a'')
            \<and> cidade p = replicate (Suc (j div 100)) (CHR ''b'')"
    and i5: "map fst (properties (run initial (bulkOps 999))) = map digitsOf [0..<999]"
    by blast+
  from i5 have "length (map fst (properties (run initial (bulkOps 999))))
      = length (map digitsOf [0..<999])"
    by (rule arg_cong)
  then have len: "length (properties (run initial (bulkOps 999))) = 999"
    by simp
  have n: "(999::nat) < 10000" by simp
  from bulk_step [OF i1 i2 i3 i4 n, of sampleId] obtain p s' where
    "propertyCreate sampleTime sampleId sampleTime sampleTime (bulkBody 999)
        (run initial (bulkOps 999)) = (Inr p, s')"
    and "codigo_propriedade p = ''PROP-20250128-'' @ padStart 3 (CHR ''0'') (digitsOf (Suc 999))"
    by blast
  with len show ?thesis
    by (simp add: digitsOf_small padStart_samples)
qed

section \<open>The order of the checks of a create request\<close>

text \<open>
  C7. A create request is checked in the order validation, duplicate address, record
  limit, and a call that ends in an error leaves every store as it was.
\<close>

theorem propertyCreate_check_order:
  "(createSchema body = None \<longrightarrow>
      propertyCreate now uuid today seqNow body s = (Inl (ServiceError VALIDATION_ERROR 400), s))
   \<and> (\<forall>params. createSchema body = Some params
        \<and> existsByAddress s (c_endereco_completo params) (c_bairro params) (c_cep params)
             (c_cidade params) (c_estado params) \<longrightarrow>
      propertyCreate now uuid today seqNow body s = (Inl (ServiceError DUPLICATE_ADDRESS 409), s))
   \<and> (\<forall>params. createSchema body = Some params
        \<and> \<not> existsByAddress s (c_endereco_completo params) (c_bairro params) (c_cep params)
             (c_cidade params) (c_estado params)
        \<and> 10000 \<le> length (properties s) \<longrightarrow>
      propertyCreate now uuid today seqNow body s = (Inl (ServiceError MAX_RECORDS_REACHED 507), s))
   \<and> (\<forall>e s'. propertyCreate now uuid today seqNow body s = (Inl e, s') \<longrightarrow> s' = s)"
proof (intro conjI)
  show "createSchema body = None \<longrightarrow>
      propertyCreate now uuid today seqNow body s = (Inl (ServiceError VALIDATION_ERROR 400), s)"
    by (simp add: propertyCreate_def)
  show "\<forall>params. createSchema body = Some params
        \<and> existsByAddress s (c_endereco_completo params) (c_bairro params) (c_cep params)
             (c_cidade params) (c_estado params) \<longrightarrow>
      propertyCreate now uuid today seqNow body s = (Inl (ServiceError DUPLICATE_ADDRESS 409), s)"
    by (simp add: propertyCreate_def checkDuplicateAddress_def)
  show "\<forall>params. createSchema body = Some params
        \<and> \<not> existsByAddress s (c_endereco_completo params) (c_bairro params) (c_cep params)
             (c_cidade params) (c_estado params)
        \<and> 10000 \<le> length (properties s) \<longrightarrow>
      propertyCreate now uuid today seqNow body s = (Inl (ServiceError MAX_RECORDS_REACHED 507), s)"
    by (simp add: propertyCreate_def checkDuplicateAddress_def count_def MAX_RECORDS_def)
  show "\<forall>e s'. propertyCreate now uuid today seqNow body s = (Inl e, s') \<longrightarrow> s' = s"
    by (blast dest: propertyCreate_Inl)
qed

lemma fullState_facts:
  "length (properties fullState) = 10000"
  "\<not> existsByAddress fullState (c_endereco_completo sampleParams2) (c_bairro sampleParams2)
       (c_cep sampleParams2) (c_cidade sampleParams2) (c_estado sampleParams2)"
proof -
  have b: "(10000::nat) \<le> 10000" by simp
  note inv = bulk_run [OF b]
  from inv have "map fst (properties fullState) = map digitsOf [0..<10000]"
    by (simp add: fullState_def)
  then have "length (map fst (properties fullState)) = length (map digitsOf [0..<10000])"
    by (rule arg_cong)
  then show "length (properties fullState) = 10000"
    by simp
  from inv have "\<forall>p \<in> set (getAll fullState). endereco_completo p = ''Rua das Flores, 123''"
    by (simp add: fullState_def)
  then show "\<not> existsByAddress fullState (c_endereco_completo sampleParams2)
       (c_bairro sampleParams2) (c_cep sampleParams2) (c_cidade sampleParams2)
       (c_estado sampleParams2)"
    by (auto simp: existsByAddress_def list_ex_iff getAll_def sampleParams2_def
        toLowerCase_samples toLowerCase_samples2)
qed

theorem propertyCreate_check_order_witness:
  "createSchema JNull = None
   \<and> propertyCreate sampleTime sampleId sampleTime sampleTime JNull sampleState
       = (Inl (ServiceError VALIDATION_ERROR 400), sampleState)
   \<and> createSchema sampleBodyUpper \<noteq> None
   \<and> propertyCreate sampleTime sampleId sampleTime sampleTime sampleBodyUpper sampleState
       = (Inl (ServiceError DUPLICATE_ADDRESS 409), sampleState)
   \<and> createSchema sampleBody2 = Some sampleParams2
   \<and> 10000 \<le> length (properties fullState)
   \<and> propertyCreate sampleTime sampleId sampleTime sampleTime sampleBody2 fullState
       = (Inl (ServiceError MAX_RECORDS_REACHED 507), fullState)"
proof -
  have v: "createSchema JNull = None"
    by (simp add: createSchema_def)
  have d: "existsByAddress sampleState ''RUA DAS FLORES, 123'' ''CENTRO'' ''01310-100''
             ''SAO PAULO'' ''SP''"
    by (simp add: existsByAddress_def sampleState_def sampleProperty_def newProperty_def
        sampleParams_def toLowerCase_samples)
  note t1 = propertyCreate_check_order
    [of JNull sampleTime sampleId sampleTime sampleTime sampleState]
  note t2 = propertyCreate_check_order
    [of sampleBodyUpper sampleTime sampleId sampleTime sampleTime sampleState]
  note t3 = propertyCreate_check_order
    [of sampleBody2 sampleTime sampleId sampleTime sampleTime fullState]
  from t1 v have r1: "propertyCreate sampleTime sampleId sampleTime sampleTime JNull sampleState
       = (Inl (ServiceError VALIDATION_ERROR 400), sampleState)"
    by blast
  from t2 d have r2: "propertyCreate sampleTime sampleId sampleTime sampleTime sampleBodyUpper
       sampleState = (Inl (ServiceError DUPLICATE_ADDRESS 409), sampleState)"
    by (simp add: createSchema_sampleBodyUpper' sampleParamsUpper_def)
  from t3 fullState_facts createSchema_sampleBody2
  have r3: "propertyCreate sampleTime sampleId sampleTime sampleTime sampleBody2 fullState
       = (Inl (ServiceError MAX_RECORDS_REACHED 507), fullState)"
    by simp
  from v r1 r2 r3 fullState_facts(1) show ?thesis
    by (simp add: createSchema_sampleBodyUpper createSchema_sampleBody2)
qed

end
